theory Spec2Isabelle
  imports Main "HOL-Library.AList" "HOL-Library.Char_ord" "HOL-Library.List_Lexorder"
    "HOL-Library.Multiset"
begin

section \<open>Data model\<close>

text \<open>
  JavaScript can throw any value, and a rejected promise can carry any value. Of a
  caught value the code reads whether it is an instance of \<^verbatim>\<open>Error\<close>, its \<^verbatim>\<open>message\<close>
  property and \<^verbatim>\<open>String(value)\<close>. So a thrown value is \<^verbatim>\<open>undefined\<close>, \<^verbatim>\<open>null\<close>, an instance of
  \<^verbatim>\<open>Error\<close> with its \<^verbatim>\<open>name\<close> and \<^verbatim>\<open>message\<close>, or any other value, of which the model keeps
  the \<^verbatim>\<open>message\<close> property (\<open>None\<close> when it has none, otherwise the text that a template
  literal writes for it) and the result of \<^verbatim>\<open>String(value)\<close> (\<open>None\<close> when the conversion
  throws, as it does for an object without \<^verbatim>\<open>toString\<close> and \<^verbatim>\<open>valueOf\<close>). A function that may
  throw returns \<open>error + 'a\<close>, with \<open>Inl\<close> for the throw.

  JSON payloads that the code only passes along (schemas, call arguments, content items)
  are values of a type variable \<open>'j\<close>.
\<close>

datatype error =
    ThrownUndefined
  | ThrownNull
  | ThrownError string string
  | ThrownValue "string option" "string option"

text \<open>\<^verbatim>\<open>new Error(msg)\<close>, and the \<^verbatim>\<open>TypeError\<close> of the engine.\<close>

abbreviation Error :: "string \<Rightarrow> error" where
  "Error msg \<equiv> ThrownError ''Error'' msg"

abbreviation TypeError :: "string \<Rightarrow> error" where
  "TypeError msg \<equiv> ThrownError ''TypeError'' msg"

text \<open>A text between single quotes, as the messages of the code have it.\<close>

definition quoted :: "string \<Rightarrow> string" where
  "quoted s = CHR 0x27 # s @ [CHR 0x27]"

text \<open>\<^verbatim>\<open>String(error)\<close>; for an instance of \<^verbatim>\<open>Error\<close> it is \<^verbatim>\<open>Error.prototype.toString\<close>.\<close>

fun js_String :: "error \<Rightarrow> error + string" where
  "js_String ThrownUndefined = Inr ''undefined''"
| "js_String ThrownNull = Inr ''null''"
| "js_String (ThrownError n m) =
     Inr (if n = [] then m else if m = [] then n else n @ '': '' @ m)"
| "js_String (ThrownValue m (Some s)) = Inr s"
| "js_String (ThrownValue m None) =
     Inl (TypeError ''Cannot convert object to primitive value'')"

text \<open>\<^verbatim>\<open>error instanceof Error ? error.message : String(error)\<close>\<close>

fun instanceof_Error_message :: "error \<Rightarrow> error + string" where
  "instanceof_Error_message (ThrownError n m) = Inr m"
| "instanceof_Error_message ThrownUndefined = js_String ThrownUndefined"
| "instanceof_Error_message ThrownNull = js_String ThrownNull"
| "instanceof_Error_message (ThrownValue m s) = js_String (ThrownValue m s)"


text \<open>The MCP \<^verbatim>\<open>Tool\<close>: \<open>name\<close> is the downstream wire name, \<open>title\<close> the alias the
  registry computes with \<^verbatim>\<open>convertToolName\<close>.\<close>

record 'j Tool =
  name :: string
  title :: string
  description :: string
  inputSchema :: 'j
  outputSchema :: "'j option"

text \<open>
  \<^verbatim>\<open>CallToolResult\<close> of the MCP SDK: what a downstream \<^verbatim>\<open>callTool\<close> resolves to, and
  (as \<^verbatim>\<open>ToolResponse\<close>) what a meta-tool handler returns. A field the object does not
  have is \<open>None\<close>.
\<close>

record 'c CallToolResult =
  content :: "'c list option"
  isError :: "bool option"

text \<open>
  The MCP client surface the code uses. \<open>getInstructions\<close> is \<open>None\<close> for
  \<^verbatim>\<open>undefined\<close>; \<open>listTools\<close> and \<open>callTool\<close> are the settled results of the
  asynchronous calls (\<open>Inl\<close> for a rejected promise).
\<close>

record 'j Client =
  getInstructions :: "string option"
  listTools :: "error + 'j Tool list"
  callTool :: "string \<Rightarrow> 'j \<Rightarrow> error + 'j CallToolResult"

text \<open>\<^verbatim>\<open>ServerInfo\<close> of types.ts. The generated stubs test \<^verbatim>\<open>!serverInfo.client\<close>, so the
  client handle may be null.\<close>

record 'j ServerInfo =
  name :: string
  client :: "'j Client option"
  tools :: "'j Tool list"

text \<open>
  A JavaScript \<^verbatim>\<open>Map\<close> with string keys is an association list in insertion order:
  \<^verbatim>\<open>get\<close> is \<^const>\<open>map_of\<close>, \<^verbatim>\<open>set\<close> is \<^const>\<open>AList.update\<close> (an existing key keeps
  its place, a new key goes to the end), \<^verbatim>\<open>has\<close> is \<open>map_of m k \<noteq> None\<close>, \<^verbatim>\<open>clear\<close>
  gives \<open>[]\<close>, and iteration follows the list.
\<close>

type_synonym 'v js_map = "(string \<times> 'v) list"

text \<open>The lines written with \<^verbatim>\<open>console.error\<close>, one constructor for each call site.\<close>

datatype log_entry =
    RegisteredServer string nat
  | FailedToRegisterServer string error
  | FailedToRegister string error
  | RegisteredCount nat
  | ToolNotFound string string
  | ErrorExecutingCode error
  | FailedToSaveOutputSchema string string error
  | UpdatedOutputSchema string string


section \<open>ServersRegistry\<close>

text \<open>
  Modelled from the spec: the connection manager (mcpConnection.ts is not among the
  sources). The spec gives it \<^verbatim>\<open>get(name) \<rightarrow> handle | none\<close> and
  \<^verbatim>\<open>all() \<rightarrow> mapping name \<rightarrow> handle\<close>; it is the map from server names to client
  handles.
\<close>

type_synonym 'j MCPConnection = "'j Client js_map"

definition getConnection :: "'j MCPConnection \<Rightarrow> string \<Rightarrow> 'j Client option" where
  "getConnection conn serverName = map_of conn serverName"

definition getAllConnections :: "'j MCPConnection \<Rightarrow> 'j Client js_map" where
  "getAllConnections conn = conn"

record 'j ServersRegistry =
  serversInfo :: "'j ServerInfo js_map"
  mcpConnection :: "'j MCPConnection"
  console :: "log_entry list"

text \<open>
  \<^verbatim>\<open>registerServer\<close> is an async function: the two checks run when it is called, the
  rest runs when \<^verbatim>\<open>client.listTools()\<close> has settled. \<^verbatim>\<open>convertToolName\<close> (utils.ts, not
  among the sources) is a parameter. The \<^verbatim>\<open>catch\<close> block computes the text of the failure
  before it writes the log line; when \<^verbatim>\<open>String(error)\<close> throws there, that error leaves
  \<^verbatim>\<open>registerServer\<close>.
\<close>

definition registerServer_checks :: "'j ServersRegistry \<Rightarrow> string \<Rightarrow> error + 'j Client" where
  "registerServer_checks reg serverName =
     (if map_of (serversInfo reg) serverName \<noteq> None
      then Inl (Error (''Server '' @ quoted serverName @ '' is already registered''))
      else case getConnection (mcpConnection reg) serverName of
             None \<Rightarrow> Inl (Error (''Connection for server '' @ quoted serverName @ '' not found''))
           | Some c \<Rightarrow> Inr c)"

definition registerServer_settled ::
  "(string \<Rightarrow> string) \<Rightarrow> 'j ServersRegistry \<Rightarrow> string \<Rightarrow> 'j Client
     \<Rightarrow> 'j ServersRegistry \<times> (error + unit)" where
  "registerServer_settled convertToolName reg serverName c =
     (case listTools c of
        Inl e \<Rightarrow>
          (case instanceof_Error_message e of
             Inl thrown \<Rightarrow> (reg, Inl thrown)
           | Inr errorMessage \<Rightarrow>
               (reg\<lparr>console := console reg @ [FailedToRegisterServer serverName e]\<rparr>,
                Inl (Error (''Failed to register server '' @ quoted serverName @ '': ''
                            @ errorMessage))))
      | Inr ts \<Rightarrow>
          (reg\<lparr>serversInfo :=
                 AList.update serverName
                   \<lparr>ServerInfo.name = serverName, client = Some c,
                    tools = map (\<lambda>t. t\<lparr>title := convertToolName (Tool.name t)\<rparr>) ts\<rparr>
                   (serversInfo reg),
               console := console reg @ [RegisteredServer serverName (length ts)]\<rparr>,
           Inr ()))"

definition registerServer ::
  "(string \<Rightarrow> string) \<Rightarrow> 'j ServersRegistry \<Rightarrow> string \<Rightarrow> 'j ServersRegistry \<times> (error + unit)" where
  "registerServer convertToolName reg serverName =
     (case registerServer_checks reg serverName of
        Inl e \<Rightarrow> (reg, Inl e)
      | Inr c \<Rightarrow> registerServer_settled convertToolName reg serverName c)"

text \<open>
  \<^verbatim>\<open>registerAllServers\<close> starts one \<^verbatim>\<open>registerServer\<close> per connection in a loop, each
  with a \<^verbatim>\<open>catch\<close> handler that logs, and awaits them all. Every call runs its checks
  against the registry as it is at the start; the calls that reach \<^verbatim>\<open>listTools\<close> resume
  in the order their promises settle, which the parameter \<open>settle_order\<close> gives (any
  rearrangement of the pending calls).
\<close>

definition caught_and_logged ::
  "string \<Rightarrow> 'j ServersRegistry \<times> (error + unit) \<Rightarrow> 'j ServersRegistry" where
  "caught_and_logged serverName r =
     (case snd r of
        Inl e \<Rightarrow> (fst r)\<lparr>console := console (fst r) @ [FailedToRegister serverName e]\<rparr>
      | Inr _ \<Rightarrow> fst r)"

definition rejected_and_caught ::
  "'j ServersRegistry \<Rightarrow> string \<times> error \<Rightarrow> 'j ServersRegistry" where
  "rejected_and_caught r = (\<lambda>(serverName, e). caught_and_logged serverName (r, Inl e))"

definition settled_and_caught ::
  "(string \<Rightarrow> string) \<Rightarrow> 'j ServersRegistry \<Rightarrow> string \<times> 'j Client \<Rightarrow> 'j ServersRegistry" where
  "settled_and_caught convertToolName r =
     (\<lambda>(serverName, c).
        caught_and_logged serverName (registerServer_settled convertToolName r serverName c))"

definition registerAllServers ::
  "(string \<Rightarrow> string) \<Rightarrow> ((string \<times> 'j Client) list \<Rightarrow> (string \<times> 'j Client) list)
     \<Rightarrow> 'j ServersRegistry \<Rightarrow> 'j ServersRegistry" where
  "registerAllServers convertToolName settle_order reg =
     (let connections = map fst (getAllConnections (mcpConnection reg));
          rejected = List.map_filter
            (\<lambda>serverName. case registerServer_checks reg serverName of
                             Inl e \<Rightarrow> Some (serverName, e) | Inr _ \<Rightarrow> None) connections;
          pending = List.map_filter
            (\<lambda>serverName. case registerServer_checks reg serverName of
                             Inl _ \<Rightarrow> None | Inr c \<Rightarrow> Some (serverName, c)) connections;
          reg1 = foldl rejected_and_caught reg rejected;
          reg2 = foldl (settled_and_caught convertToolName) reg1 (settle_order pending)
      in reg2\<lparr>console := console reg2 @ [RegisteredCount (length (serversInfo reg2))]\<rparr>)"

definition getTool :: "'j ServersRegistry \<Rightarrow> string \<Rightarrow> string \<Rightarrow> error + 'j Tool option" where
  "getTool reg serverName toolName =
     (case map_of (serversInfo reg) serverName of
        None \<Rightarrow> Inl (Error (''Server '' @ quoted serverName @ '' not found in registry''))
      | Some serverInfo \<Rightarrow> Inr (find (\<lambda>tool. Tool.name tool = toolName) (tools serverInfo)))"


section \<open>MCPToolsParser\<close>

text \<open>\<^verbatim>\<open>Array.prototype.join\<close> and \<^verbatim>\<open>String.prototype.split\<close> with a one-character
  separator.\<close>

fun join :: "string \<Rightarrow> string list \<Rightarrow> string" where
  "join sep [] = []"
| "join sep [x] = x"
| "join sep (x # y # ys) = x @ sep @ join sep (y # ys)"

fun js_split :: "char \<Rightarrow> string \<Rightarrow> string list" where
  "js_split sep [] = [[]]"
| "js_split sep (c # cs) =
     (if c = sep then [] # js_split sep cs
      else case js_split sep cs of
             [] \<Rightarrow> [[c]]
           | p # ps \<Rightarrow> (c # p) # ps)"

text \<open>
  \<^verbatim>\<open>getServersOverview\<close>: the loop pushes, for each server, a header line when the
  instructions are truthy (a non-empty string) and one line for each tool; the lines
  are then sorted with the default \<^verbatim>\<open>Array.prototype.sort\<close> (strings compared by code
  units, here the lexicographic order on characters) and joined with newlines. Reading
  \<^verbatim>\<open>getInstructions\<close> of a null client is a \<^verbatim>\<open>TypeError\<close>.
\<close>

definition instructions_header :: "string \<Rightarrow> 'j Client \<Rightarrow> string list" where
  "instructions_header serverName c =
     (case getInstructions c of
        None \<Rightarrow> []
      | Some serverInstructions \<Rightarrow>
          if serverInstructions \<noteq> []
          then [''# '' @ serverName @ '' mcp server nstructions: '' @ serverInstructions]
          else [])"

definition tool_line :: "string \<Rightarrow> 'j Tool \<Rightarrow> string" where
  "tool_line serverName tool = serverName @ ''/'' @ title tool"

fun overview_lines :: "'j ServerInfo js_map \<Rightarrow> string list \<Rightarrow> error + string list" where
  "overview_lines [] lines = Inr lines"
| "overview_lines ((serverName, serverInfo) # rest) lines =
     (case client serverInfo of
        None \<Rightarrow> Inl (TypeError (''Cannot read properties of null (reading '' @ quoted ''getInstructions'' @ '')''))
      | Some c \<Rightarrow>
          overview_lines rest
            (lines @ instructions_header serverName c @
             map (tool_line serverName) (tools serverInfo)))"

definition getServersOverview :: "'j ServerInfo js_map \<Rightarrow> error + string" where
  "getServersOverview infos =
     (case overview_lines infos [] of
        Inl e \<Rightarrow> Inl e
      | Inr lines \<Rightarrow> Inr (join ''\<newline>'' (sort lines)))"

text \<open>The lines one server contributes to the overview.\<close>

definition lines_of_server :: "string \<times> 'j ServerInfo \<Rightarrow> string list" where
  "lines_of_server entry =
     (case client (snd entry) of
        None \<Rightarrow> []
      | Some c \<Rightarrow>
          instructions_header (fst entry) c @ map (tool_line (fst entry)) (tools (snd entry)))"

text \<open>
  The overview as the specification words it: the servers in the order of their names,
  for each a header line with the instructions, if any, then its tool lines in the order
  of the titles, and after the last server the hint
  (\<^verbatim>\<open>SERVERS_OVERVIEW_ADDITIONAL_ANS\<close> of PromptDefinitions.ts).
\<close>

definition overview_hint :: string where
  "overview_hint =
     ''\<newline>Note: If you want to use any tools from the list first find out how to use in using the ''
     @ [CHR 0x22] @ ''get_tools_overview'' @ [CHR 0x22] @ '' tool.\<newline>''"

definition specified_server_block :: "string \<times> 'j ServerInfo \<Rightarrow> string list" where
  "specified_server_block entry =
     (''# '' @ fst entry @ '' mcp server instructions: '' @
        (case client (snd entry) of
           None \<Rightarrow> []
         | Some c \<Rightarrow> (case getInstructions c of None \<Rightarrow> [] | Some i \<Rightarrow> i)))
     # map (tool_line (fst entry)) (sort_key title (tools (snd entry)))"

definition specified_servers_overview :: "'j ServerInfo js_map \<Rightarrow> string" where
  "specified_servers_overview infos =
     join ''\<newline>'' (concat (map specified_server_block (sort_key fst infos)) @ [overview_hint])"

text \<open>The object \<^verbatim>\<open>{...tool, exampleUsage}\<close> that \<^verbatim>\<open>getToolsOverview\<close> pushes.\<close>

record 'j ToolWithUsage = "'j Tool" +
  exampleUsage :: string

definition exampleUsage_text :: "string \<Rightarrow> string \<Rightarrow> string" where
  "exampleUsage_text serverName toolTitle =
     ''const '' @ toolTitle @ '' = require('' @ quoted (''./'' @ serverName @ ''/'' @ toolTitle @ ''.cjs'')
       @ '');\<newline>module.exports = '' @ toolTitle @ ''({ /* your parameters here */ });''"

definition with_exampleUsage :: "string \<Rightarrow> 'j Tool \<Rightarrow> 'j ToolWithUsage" where
  "with_exampleUsage serverName tool =
     Tool.extend tool (ToolWithUsage.fields (exampleUsage_text serverName (title tool)))"

text \<open>
  The loop of \<^verbatim>\<open>getToolsOverview\<close>, with the warnings written so far and the array
  \<^verbatim>\<open>tools\<close> as accumulators. A \<^verbatim>\<open>throw\<close> ends the loop; the warnings already written stay.
\<close>

fun getToolsOverview_loop ::
  "'j ServerInfo js_map \<Rightarrow> string list \<Rightarrow> log_entry list \<Rightarrow> 'j ToolWithUsage list
     \<Rightarrow> log_entry list \<times> (error + 'j ToolWithUsage list)" where
  "getToolsOverview_loop infos [] warnings acc = (warnings, Inr acc)"
| "getToolsOverview_loop infos (toolPath # rest) warnings acc =
     (let parts = js_split CHR ''/'' toolPath in
      if length parts \<noteq> 2
      then (warnings,
            Inl (Error (''Error: Invalid tool path format '' @ quoted toolPath @ ''. Expected ''
                        @ quoted ''serverName/toolName'')))
      else let serverName = parts ! 0; toolName = parts ! 1 in
        case map_of infos serverName of
          None \<Rightarrow> (warnings, Inl (Error (''Error: Server '' @ quoted serverName @ '' not found'')))
        | Some serverInfo \<Rightarrow>
            (case find (\<lambda>t. title t = toolName) (tools serverInfo) of
               Some tool \<Rightarrow>
                 getToolsOverview_loop infos rest warnings
                   (acc @ [with_exampleUsage serverName tool])
             | None \<Rightarrow>
                 getToolsOverview_loop infos rest
                   (warnings @ [ToolNotFound toolName serverName]) acc))"

text \<open>\<^verbatim>\<open>JSON.stringify\<close> is the parameter \<open>stringify\<close>.\<close>

definition getToolsOverview ::
  "('j ToolWithUsage list \<Rightarrow> string) \<Rightarrow> 'j ServerInfo js_map \<Rightarrow> string list
     \<Rightarrow> log_entry list \<times> (error + string)" where
  "getToolsOverview stringify infos toolPaths =
     (case getToolsOverview_loop infos toolPaths [] [] of
        (warnings, Inl e) \<Rightarrow> (warnings, Inl e)
      | (warnings, Inr ts) \<Rightarrow> (warnings, Inr (stringify ts)))"


text \<open>
  For stating what \<^verbatim>\<open>getToolsOverview\<close> does with a path: whether it is malformed,
  whether it names a server that is not registered, and, for a path that is neither,
  the warning it causes and the element it adds to the array (one of the two).
\<close>

definition malformed :: "string \<Rightarrow> bool" where
  "malformed toolPath = (length (js_split CHR ''/'' toolPath) \<noteq> 2)"

definition server_part :: "string \<Rightarrow> string" where
  "server_part toolPath = js_split CHR ''/'' toolPath ! 0"

definition tool_part :: "string \<Rightarrow> string" where
  "tool_part toolPath = js_split CHR ''/'' toolPath ! 1"

definition fails_lookup :: "'j ServerInfo js_map \<Rightarrow> string \<Rightarrow> bool" where
  "fails_lookup infos toolPath =
     (malformed toolPath \<or> map_of infos (server_part toolPath) = None)"

definition path_warnings :: "'j ServerInfo js_map \<Rightarrow> string \<Rightarrow> log_entry list" where
  "path_warnings infos toolPath =
     (case map_of infos (server_part toolPath) of
        None \<Rightarrow> []
      | Some serverInfo \<Rightarrow>
          (case find (\<lambda>t. title t = tool_part toolPath) (tools serverInfo) of
             None \<Rightarrow> [ToolNotFound (tool_part toolPath) (server_part toolPath)]
           | Some tool \<Rightarrow> []))"

definition path_elements :: "'j ServerInfo js_map \<Rightarrow> string \<Rightarrow> 'j ToolWithUsage list" where
  "path_elements infos toolPath =
     (case map_of infos (server_part toolPath) of
        None \<Rightarrow> []
      | Some serverInfo \<Rightarrow>
          (case find (\<lambda>t. title t = tool_part toolPath) (tools serverInfo) of
             None \<Rightarrow> []
           | Some tool \<Rightarrow> [with_exampleUsage (server_part toolPath) tool]))"

definition invalid_path_error :: "string \<Rightarrow> error" where
  "invalid_path_error toolPath =
     Error (''Error: Invalid tool path format '' @ quoted toolPath @ ''. Expected ''
            @ quoted ''serverName/toolName'')"

definition server_not_found_error :: "string \<Rightarrow> error" where
  "server_not_found_error serverName = Error (''Error: Server '' @ quoted serverName @ '' not found'')"


section \<open>SandboxManagerImpl\<close>

text \<open>
  Modelled from the spec: the tool metadata store (serversToolDatabaseImpl.ts is not among
  the sources). The spec makes \<^verbatim>\<open>(serverName, toolName)\<close> the unique key of a persisted row
  with the columns \<^verbatim>\<open>outputSchema\<close> (serialized, nullable) and \<^verbatim>\<open>originalOutputSchema\<close>;
  \<^verbatim>\<open>lastUpdated\<close> is left out, nothing here reads it. \<^verbatim>\<open>getTool\<close> reads the row of a key;
  \<^verbatim>\<open>updateTool\<close> overwrites the two columns of the row of its key, whatever they hold,
  and touches no other row. Neither operation is taken to throw.
\<close>

record ToolRow =
  outputSchema :: "string option"
  originalOutputSchema :: bool

type_synonym ToolDatabase = "string \<times> string \<Rightarrow> ToolRow option"

definition database_getTool :: "ToolDatabase \<Rightarrow> string \<Rightarrow> string \<Rightarrow> ToolRow option" where
  "database_getTool db serverName toolName = db (serverName, toolName)"

definition database_updateTool ::
  "ToolDatabase \<Rightarrow> string \<Rightarrow> string \<Rightarrow> string \<Rightarrow> bool \<Rightarrow> ToolDatabase" where
  "database_updateTool db serverName toolName schema original =
     (case db (serverName, toolName) of
        None \<Rightarrow> db
      | Some row \<Rightarrow>
          db((serverName, toolName) \<mapsto>
               row\<lparr>ToolRow.outputSchema := Some schema, originalOutputSchema := original\<rparr>))"

text \<open>
  The state of a \<^verbatim>\<open>SandboxManagerImpl\<close>, with the database singleton it writes to. A
  cache entry \<^verbatim>\<open>{toolName, output}\<close> is a pair. The \<^verbatim>\<open>ServerInfo\<close> objects are the
  registry's own (shared by reference), so a change of \<open>serversInfo\<close> here is the
  change the registry sees.
\<close>

record 'j SandboxManagerImpl =
  serversInfo :: "'j ServerInfo js_map"
  toolOutputCache :: "(string \<times> 'j CallToolResult) list js_map"
  toolDatabase :: ToolDatabase
  console :: "log_entry list"

text \<open>\<^verbatim>\<open>const tool = serverInfo.tools.find(t => t.name === toolName); if (tool)
  tool.outputSchema = outputSchema\<close>: the first tool of that name is changed in place.\<close>

fun set_outputSchema :: "string \<Rightarrow> 'j \<Rightarrow> 'j Tool list \<Rightarrow> 'j Tool list" where
  "set_outputSchema toolName schema [] = []"
| "set_outputSchema toolName schema (t # ts) =
     (if Tool.name t = toolName then t\<lparr>Tool.outputSchema := Some schema\<rparr> # ts
      else t # set_outputSchema toolName schema ts)"

text \<open>
  The body of the inner loop of \<^verbatim>\<open>updateOutputSchema\<close>, for one cache entry.
  \<^verbatim>\<open>convertOutputToSchema\<close> (utils.ts, not among the sources) is a parameter; \<open>None\<close> is
  a falsy result. \<^verbatim>\<open>JSON.stringify\<close> of the schema is the parameter \<open>serialize\<close>. The
  \<^verbatim>\<open>throw\<close> for a missing row is caught by the \<^verbatim>\<open>catch\<close> of the same iteration, which
  logs it.
\<close>

definition save_output_schema ::
  "('j CallToolResult \<Rightarrow> 'j option) \<Rightarrow> ('j \<Rightarrow> string) \<Rightarrow> string
     \<Rightarrow> string \<times> 'j CallToolResult \<Rightarrow> 'j SandboxManagerImpl \<Rightarrow> 'j SandboxManagerImpl" where
  "save_output_schema convertOutputToSchema serialize serverName entry st =
     (let toolName = fst entry; output = snd entry in
      case convertOutputToSchema output of
        None \<Rightarrow> st
      | Some schema \<Rightarrow>
          (case database_getTool (toolDatabase st) serverName toolName of
             None \<Rightarrow>
               st\<lparr>SandboxManagerImpl.console := SandboxManagerImpl.console st @
                    [FailedToSaveOutputSchema serverName toolName
                       (Error (''Tool '' @ toolName @ '' not found in database for server ''
                               @ serverName))]\<rparr>
           | Some existingTool \<Rightarrow>
               if \<not> originalOutputSchema existingTool
               then
                 (let st1 = st\<lparr>toolDatabase :=
                                 database_updateTool (toolDatabase st) serverName toolName
                                   (serialize schema) False\<rparr>
                  in (case map_of (SandboxManagerImpl.serversInfo st1) serverName of
                        None \<Rightarrow> st1
                      | Some serverInfo \<Rightarrow>
                          (case find (\<lambda>t. Tool.name t = toolName) (tools serverInfo) of
                             None \<Rightarrow> st1
                           | Some _ \<Rightarrow>
                               st1\<lparr>SandboxManagerImpl.serversInfo :=
                                     AList.update serverName
                                       (serverInfo\<lparr>tools :=
                                          set_outputSchema toolName schema (tools serverInfo)\<rparr>)
                                       (SandboxManagerImpl.serversInfo st1),
                                   SandboxManagerImpl.console := SandboxManagerImpl.console st1 @
                                     [UpdatedOutputSchema serverName toolName]\<rparr>)))
               else st))"

definition updateOutputSchema ::
  "('j CallToolResult \<Rightarrow> 'j option) \<Rightarrow> ('j \<Rightarrow> string)
     \<Rightarrow> 'j SandboxManagerImpl \<Rightarrow> 'j SandboxManagerImpl" where
  "updateOutputSchema convertOutputToSchema serialize st =
     foldl (\<lambda>s (serverName, outputs).
              foldl (\<lambda>s' entry. save_output_schema convertOutputToSchema serialize serverName entry s')
                s outputs)
       st (toolOutputCache st)"

definition clearAndSetToolOutCache :: "'j SandboxManagerImpl \<Rightarrow> 'j SandboxManagerImpl" where
  "clearAndSetToolOutCache st =
     st\<lparr>toolOutputCache :=
          foldl (\<lambda>cache (serverName, serverInfo). AList.update serverName [] cache) []
            (SandboxManagerImpl.serversInfo st)\<rparr>"

text \<open>
  Two observations for stating what the drain changes: whether the row of a key takes an
  inferred schema (it exists and its \<^verbatim>\<open>originalOutputSchema\<close> is false), and the
  \<^verbatim>\<open>outputSchema\<close> of the in-memory tool that \<^verbatim>\<open>find\<close> reaches under a server and a wire
  name.
\<close>

definition takes_inferred :: "ToolDatabase \<Rightarrow> string \<times> string \<Rightarrow> bool" where
  "takes_inferred db k =
     (case db k of None \<Rightarrow> False | Some row \<Rightarrow> \<not> originalOutputSchema row)"

definition in_memory_schema ::
  "'j ServerInfo js_map \<Rightarrow> string \<Rightarrow> string \<Rightarrow> 'j option option" where
  "in_memory_schema infos serverName toolName =
     (case map_of infos serverName of
        None \<Rightarrow> None
      | Some serverInfo \<Rightarrow>
          map_option Tool.outputSchema
            (find (\<lambda>t. Tool.name t = toolName) (tools serverInfo)))"

text \<open>The captured entries in the order the two loops of \<^verbatim>\<open>updateOutputSchema\<close> visit
  them, each with the server of its bucket.\<close>

definition captured_entries ::
  "(string \<times> 'j CallToolResult) list js_map \<Rightarrow> (string \<times> string \<times> 'j CallToolResult) list" where
  "captured_entries cache = concat (map (\<lambda>(serverName, outputs). map (Pair serverName) outputs) cache)"

text \<open>One iteration of the inner loop, for an entry paired with the server of its bucket.\<close>

definition save_entry ::
  "('j CallToolResult \<Rightarrow> 'j option) \<Rightarrow> ('j \<Rightarrow> string) \<Rightarrow> 'j SandboxManagerImpl
     \<Rightarrow> string \<times> string \<times> 'j CallToolResult \<Rightarrow> 'j SandboxManagerImpl" where
  "save_entry conv ser st = (\<lambda>(serverName, entry). save_output_schema conv ser serverName entry st)"

text \<open>
  The value a script leaves in \<^verbatim>\<open>module.exports\<close> either has a callable \<^verbatim>\<open>then\<close> or not;
  a thenable is fulfilled, is rejected, or never settles. An async call returns,
  throws (its promise is rejected), or stays pending.
\<close>

datatype 'v settled = Fulfilled 'v | Rejected error | NeverSettles

datatype 'v exported = NotThenable 'v | Thenable "'v settled"

datatype 'a outcome = Returns 'a | Throws error | Pending

text \<open>\<^verbatim>\<open>if (result && typeof result.then === 'function') finalResult = await result;
  else finalResult = result\<close>\<close>

fun await_if_thenable :: "'v exported \<Rightarrow> 'v outcome" where
  "await_if_thenable (NotThenable v) = Returns v"
| "await_if_thenable (Thenable (Fulfilled v)) = Returns v"
| "await_if_thenable (Thenable (Rejected e)) = Throws e"
| "await_if_thenable (Thenable NeverSettles) = Pending"

text \<open>
  \<^verbatim>\<open>vm.run\<close> belongs to the vm2 library and the script is arbitrary, so a run is a
  parameter: from the code and the state it gives what the script exported (or the
  error it threw) and the tool-output cache as the script and the stubs it called left
  it when that value was settled.
\<close>

record ('j, 'v) script_run =
  exported_value :: "error + 'v exported"
  cache_after :: "(string \<times> 'j CallToolResult) list js_map"

definition execute ::
  "(string \<Rightarrow> 'j SandboxManagerImpl \<Rightarrow> ('j, 'v) script_run)
     \<Rightarrow> ('j CallToolResult \<Rightarrow> 'j option) \<Rightarrow> ('j \<Rightarrow> string) \<Rightarrow> string
     \<Rightarrow> 'j SandboxManagerImpl \<Rightarrow> 'j SandboxManagerImpl \<times> 'v outcome" where
  "execute vm_run convertOutputToSchema serialize code st =
     (let run = vm_run code st;
          st1 = st\<lparr>toolOutputCache := cache_after run\<rparr>;
          finalResult = (case exported_value run of
                           Inl e \<Rightarrow> Throws e
                         | Inr result \<Rightarrow> await_if_thenable result)
      in case finalResult of
           Returns v \<Rightarrow>
             (clearAndSetToolOutCache (updateOutputSchema convertOutputToSchema serialize st1),
              Returns v)
         | Throws e \<Rightarrow>
             (st1\<lparr>SandboxManagerImpl.console :=
                    SandboxManagerImpl.console st1 @ [ErrorExecutingCode e]\<rparr>,
              Throws e)
         | Pending \<Rightarrow> (st1, Pending))"

text \<open>
  \<^verbatim>\<open>generateToolFile\<close> returns the text of the stub file: the template with
  \<^verbatim>\<open>tool.title\<close>, \<^verbatim>\<open>serverName\<close> and \<^verbatim>\<open>tool.name\<close> spliced in as they are, the title as
  the name of the function, the two names inside double-quoted string literals and the
  server name also inside template literals.
\<close>

definition double_quoted :: "string \<Rightarrow> string" where
  "double_quoted s = CHR 0x22 # s @ [CHR 0x22]"

definition generateToolFile_lines :: "string \<Rightarrow> 'j Tool \<Rightarrow> string list" where
  "generateToolFile_lines serverName tool =
     [[],
      ''      const serversInfo = require('serversInfo');'',
      ''      const toolOutputCache = require('toolOutputCache');'',
      ''      '',
      ''      async function '' @ title tool @ ''(args) {'',
      [],
      ''          const serverInfo = serversInfo.get('' @ double_quoted serverName @ '');'',
      ''          if (!serverInfo) {'',
      ''            throw new Error(`Server '' @ serverName @ '' not exist`);'',
      ''          }'',
      ''          if(!serverInfo.client) {'',
      ''            throw new Error(`Client for server '' @ serverName @ '' not connected`);'',
      ''          }'',
      ''          const client = serverInfo.client;'',
      ''          const response = await client.callTool({'',
      ''            name: '' @ double_quoted (Tool.name tool) @ '','',
      ''            arguments: args,'',
      ''          });'',
      ''          '',
      ''          // Save full response to cache for schema generation'',
      ''          const serverCache = toolOutputCache.get('' @ double_quoted serverName @ '');'',
      ''          if (serverCache) {'',
      ''            serverCache.push({'',
      ''              toolName: '' @ double_quoted (Tool.name tool) @ '','',
      ''              output: response'',
      ''            });'',
      ''          }'',
      ''          '',
      ''          // Return standardized response structure'',
      ''          // This provides predictable output that AI can work with consistently'',
      ''          return {'',
      ''            content: response.content || [],'',
      ''            isError: response.isError || false,'',
      ''            _meta: {'',
      ''              serverName: '' @ double_quoted serverName @ '','',
      ''              toolName: '' @ double_quoted (Tool.name tool),
      ''            }'',
      ''          };'',
      ''      }'',
      [],
      ''      module.exports = '' @ title tool @ '';'',
      ''  '']"

definition generateToolFile :: "string \<Rightarrow> 'j Tool \<Rightarrow> string" where
  "generateToolFile serverName tool = join ''\<newline>'' (generateToolFile_lines serverName tool)"

text \<open>
  What the file does when it is loaded and its function is called depends on how a
  JavaScript parser reads the spliced text. The predicates below describe splices that
  the parser reads as the template intends: a title that is an identifier of ASCII
  letters, digits, \<open>_\<close> and \<open>$\<close>, is no reserved word and is none of the names that the
  file or the module wrapper binds or that the function body takes from outside; a name
  without double quote, backslash, line feed and carriage return, which a double-quoted
  literal denotes as it is; and a server name that in addition has no backtick and no
  \<open>$\<close>, which a template literal denotes as it is.
\<close>

definition identifier_start :: "char \<Rightarrow> bool" where
  "identifier_start c =
     ((CHR ''a'' \<le> c \<and> c \<le> CHR ''z'') \<or> (CHR ''A'' \<le> c \<and> c \<le> CHR ''Z'')
      \<or> c = CHR ''_'' \<or> c = CHR ''$'')"

definition identifier_part :: "char \<Rightarrow> bool" where
  "identifier_part c = (identifier_start c \<or> (CHR ''0'' \<le> c \<and> c \<le> CHR ''9''))"

definition unusable_names :: "string list" where
  "unusable_names =
     [''break'', ''case'', ''catch'', ''class'', ''const'', ''continue'', ''debugger'',
      ''default'', ''delete'', ''do'', ''else'', ''enum'', ''export'', ''extends'', ''false'',
      ''finally'', ''for'', ''function'', ''if'', ''import'', ''in'', ''instanceof'', ''new'',
      ''null'', ''return'', ''super'', ''switch'', ''this'', ''throw'', ''true'', ''try'',
      ''typeof'', ''var'', ''void'', ''while'', ''with'', ''yield'', ''let'', ''static'',
      ''implements'', ''interface'', ''package'', ''private'', ''protected'', ''public'',
      ''await'', ''async'', ''arguments'', ''eval'',
      ''serversInfo'', ''toolOutputCache'', ''exports'', ''require'', ''module'',
      ''__filename'', ''__dirname'', ''Error'']"

definition usable_function_name :: "string \<Rightarrow> bool" where
  "usable_function_name t =
     (case t of
        [] \<Rightarrow> False
      | c # cs \<Rightarrow> identifier_start c \<and> list_all identifier_part cs \<and> t \<notin> set unusable_names)"

definition plain_in_string_literal :: "string \<Rightarrow> bool" where
  "plain_in_string_literal s =
     list_all (\<lambda>c. c \<noteq> CHR 0x22 \<and> c \<noteq> CHR 0x5C \<and> c \<noteq> CHR 0x0A \<and> c \<noteq> CHR 0x0D) s"

definition plain_in_template_literal :: "string \<Rightarrow> bool" where
  "plain_in_template_literal s =
     list_all (\<lambda>c. c \<noteq> CHR 0x60 \<and> c \<noteq> CHR 0x5C \<and> c \<noteq> CHR ''$'' \<and> c \<noteq> CHR 0x0D) s"

definition plain_splices :: "string \<Rightarrow> 'j Tool \<Rightarrow> bool" where
  "plain_splices serverName tool =
     (usable_function_name (title tool) \<and>
      plain_in_string_literal serverName \<and> plain_in_template_literal serverName \<and>
      plain_in_string_literal (Tool.name tool))"

text \<open>
  \<^verbatim>\<open>x || d\<close> on an optional array gives the array when there is one (an array is
  truthy), on an optional boolean it gives the boolean when it is true.
\<close>

definition or_array :: "'c list option \<Rightarrow> 'c list \<Rightarrow> 'c list" where
  "or_array x d = (case x of None \<Rightarrow> d | Some xs \<Rightarrow> xs)"

definition or_bool :: "bool option \<Rightarrow> bool \<Rightarrow> bool" where
  "or_bool x d = (case x of None \<Rightarrow> d | Some b \<Rightarrow> if b then b else d)"

text \<open>The spec's \<^verbatim>\<open>x ?? d\<close>: the default stands in for a missing value only.\<close>

definition nullish_coalesce :: "'a option \<Rightarrow> 'a \<Rightarrow> 'a" where
  "nullish_coalesce x d = (case x of None \<Rightarrow> d | Some v \<Rightarrow> v)"

record EnvelopeMeta =
  meta_serverName :: string
  meta_toolName :: string

record 'c Envelope =
  content :: "'c list"
  isError :: bool
  meta :: EnvelopeMeta

text \<open>
  What the function of the generated file does when called, for plain splices: the
  function body of the template, with \<^verbatim>\<open>serverName\<close> and \<^verbatim>\<open>tool.name\<close> the values of the
  literals. For other splices the file is whatever JavaScript its text then spells (for
  a title such as \<open>get-forecast\<close> none at all); that is not modelled and the result is
  \<open>None\<close>.
\<close>

definition tool_stub ::
  "string \<Rightarrow> 'j Tool \<Rightarrow> 'j SandboxManagerImpl \<Rightarrow> 'j
     \<Rightarrow> ('j SandboxManagerImpl \<times> (error + 'j Envelope)) option" where
  "tool_stub serverName tool st args =
     (if \<not> plain_splices serverName tool then None
      else Some
       (case map_of (SandboxManagerImpl.serversInfo st) serverName of
          None \<Rightarrow> (st, Inl (Error (''Server '' @ serverName @ '' not exist'')))
        | Some serverInfo \<Rightarrow>
            (case client serverInfo of
               None \<Rightarrow> (st, Inl (Error (''Client for server '' @ serverName @ '' not connected'')))
             | Some c \<Rightarrow>
                 (case callTool c (Tool.name tool) args of
                    Inl e \<Rightarrow> (st, Inl e)
                  | Inr response \<Rightarrow>
                      ((case map_of (toolOutputCache st) serverName of
                          None \<Rightarrow> st
                        | Some serverCache \<Rightarrow>
                            st\<lparr>toolOutputCache :=
                                 AList.update serverName
                                   (serverCache @ [(Tool.name tool, response)])
                                   (toolOutputCache st)\<rparr>),
                       Inr \<lparr>Envelope.content = or_array (CallToolResult.content response) [],
                            isError = or_bool (CallToolResult.isError response) False,
                            meta = \<lparr>meta_serverName = serverName,
                                    meta_toolName = Tool.name tool\<rparr>\<rparr>)))))"


section \<open>SandboxManager (sandboxManager.ts)\<close>

text \<open>
  The earlier sandbox class. Its \<^verbatim>\<open>generateToolFile\<close> splices the same three values into
  a shorter template (the JSDoc text it builds first is not used); the function of that
  file hands the downstream response back as it is. \<^verbatim>\<open>runCodeInSandbox\<close> has no cache to
  drain.
\<close>

definition legacy_generateToolFile_lines :: "string \<Rightarrow> 'j Tool \<Rightarrow> string list" where
  "legacy_generateToolFile_lines serverName tool =
     [[],
      ''      const serversInfo = require('serversInfo');'',
      ''      async function '' @ title tool @ ''(args) {'',
      [],
      ''          const serverInfo = serversInfo.get('' @ double_quoted serverName @ '');'',
      ''          if (!serverInfo) {'',
      ''            throw new Error(`Server '' @ serverName @ '' not exist`);'',
      ''          }'',
      ''          if(!serverInfo.client) {'',
      ''            throw new Error(`Client for server '' @ serverName @ '' not connected`);'',
      ''          }'',
      ''          const client = serverInfo.client;'',
      ''          const response = await client.callTool({'',
      ''            name: '' @ double_quoted (Tool.name tool) @ '','',
      ''            arguments: args,'',
      ''          });'',
      ''          return response;'',
      ''      }'',
      [],
      ''      module.exports = '' @ title tool @ '';'',
      ''  '']"

definition legacy_generateToolFile :: "string \<Rightarrow> 'j Tool \<Rightarrow> string" where
  "legacy_generateToolFile serverName tool =
     join ''\<newline>'' (legacy_generateToolFile_lines serverName tool)"

definition legacy_tool_stub ::
  "string \<Rightarrow> 'j Tool \<Rightarrow> 'j ServerInfo js_map \<Rightarrow> 'j \<Rightarrow> (error + 'j CallToolResult) option" where
  "legacy_tool_stub serverName tool infos args =
     (if \<not> plain_splices serverName tool then None
      else Some
       (case map_of infos serverName of
          None \<Rightarrow> Inl (Error (''Server '' @ serverName @ '' not exist''))
        | Some serverInfo \<Rightarrow>
            (case client serverInfo of
               None \<Rightarrow> Inl (Error (''Client for server '' @ serverName @ '' not connected''))
             | Some c \<Rightarrow> callTool c (Tool.name tool) args)))"

definition runCodeInSandbox ::
  "(string \<Rightarrow> error + 'v exported) \<Rightarrow> string \<Rightarrow> log_entry list \<Rightarrow> log_entry list \<times> 'v outcome" where
  "runCodeInSandbox vm_run code logs =
     (case (case vm_run code of Inl e \<Rightarrow> Throws e | Inr result \<Rightarrow> await_if_thenable result) of
        Returns v \<Rightarrow> (logs, Returns v)
      | Throws e \<Rightarrow> (logs @ [ErrorExecutingCode e], Throws e)
      | Pending \<Rightarrow> (logs, Pending))"


section \<open>ToolCallHandler and the earlier dispatcher\<close>













section \<open>Example servers\<close>

definition forecast_tool :: "nat Tool" where
  "forecast_tool =
     \<lparr>Tool.name = ''get_forecast'', title = ''get_forecast'',
      description = ''weather predictions'', inputSchema = 0, Tool.outputSchema = None\<rparr>"

definition now_tool :: "nat Tool" where
  "now_tool =
     \<lparr>Tool.name = ''now'', title = ''now'', description = ''current time'',
      inputSchema = 0, Tool.outputSchema = Some 1\<rparr>"

definition weather_client :: "nat Client" where
  "weather_client =
     \<lparr>getInstructions = Some ''Forecasts'', listTools = Inr [forecast_tool],
      callTool = (\<lambda>toolName args.
        Inr \<lparr>CallToolResult.content = Some [args], CallToolResult.isError = None\<rparr>)\<rparr>"

definition time_client :: "nat Client" where
  "time_client =
     \<lparr>getInstructions = None, listTools = Inr [now_tool],
      callTool = (\<lambda>toolName args.
        Inr \<lparr>CallToolResult.content = None, CallToolResult.isError = Some True\<rparr>)\<rparr>"

definition failing_client :: "nat Client" where
  "failing_client =
     \<lparr>getInstructions = None, listTools = Inl (Error ''Connection closed''),
      callTool = (\<lambda>toolName args. Inl (Error ''Connection closed''))\<rparr>"

definition weather_info :: "nat ServerInfo" where
  "weather_info =
     \<lparr>ServerInfo.name = ''weather'', client = Some weather_client, tools = [forecast_tool]\<rparr>"

definition time_info :: "nat ServerInfo" where
  "time_info = \<lparr>ServerInfo.name = ''time'', client = Some time_client, tools = [now_tool]\<rparr>"

text \<open>A registry that holds \<open>time\<close> already, with connections to \<open>time\<close>, \<open>files\<close> (whose
  \<^verbatim>\<open>listTools\<close> fails) and \<open>weather\<close>.\<close>

definition example_registry :: "nat ServersRegistry" where
  "example_registry =
     \<lparr>ServersRegistry.serversInfo = [(''time'', time_info)],
      mcpConnection = [(''time'', time_client), (''files'', failing_client),
                       (''weather'', weather_client)],
      ServersRegistry.console = []\<rparr>"


text \<open>A sandbox whose store holds a schema from the server for \<open>weather/get_forecast\<close>
  and none for \<open>time/now\<close>, with one captured output for each.\<close>

definition example_database :: ToolDatabase where
  "example_database =
     [(''weather'', ''get_forecast'') \<mapsto>
        \<lparr>ToolRow.outputSchema = Some ''from the server'', originalOutputSchema = True\<rparr>,
      (''time'', ''now'') \<mapsto>
        \<lparr>ToolRow.outputSchema = None, originalOutputSchema = False\<rparr>]"

definition example_response :: "nat CallToolResult" where
  "example_response = \<lparr>CallToolResult.content = Some [5], CallToolResult.isError = None\<rparr>"

definition example_sandbox :: "nat SandboxManagerImpl" where
  "example_sandbox =
     \<lparr>SandboxManagerImpl.serversInfo = [(''weather'', weather_info), (''time'', time_info)],
      toolOutputCache = [(''weather'', [(''get_forecast'', example_response)]),
                         (''time'', [(''now'', example_response)])],
      toolDatabase = example_database,
      SandboxManagerImpl.console = []\<rparr>"


text \<open>Script runs for the examples: one exports a promise that is rejected and one a
  promise that is fulfilled, both after the two outputs of \<open>example_sandbox\<close> have been
  captured; one exports a value that is not a promise and leaves the cache as it was.\<close>

definition rejecting_run :: "string \<Rightarrow> nat SandboxManagerImpl \<Rightarrow> (nat, nat) script_run" where
  "rejecting_run code st =
     \<lparr>exported_value = Inr (Thenable (Rejected (Error ''boom''))),
      cache_after = toolOutputCache example_sandbox\<rparr>"

definition fulfilling_run :: "string \<Rightarrow> nat SandboxManagerImpl \<Rightarrow> (nat, nat) script_run" where
  "fulfilling_run code st =
     \<lparr>exported_value = Inr (Thenable (Fulfilled 42)),
      cache_after = toolOutputCache example_sandbox\<rparr>"

definition plain_run :: "string \<Rightarrow> nat SandboxManagerImpl \<Rightarrow> (nat, nat) script_run" where
  "plain_run code st =
     \<lparr>exported_value = Inr (NotThenable 42), cache_after = toolOutputCache st\<rparr>"


text \<open>The tool \<open>get_forecast\<close> with the title \<open>get-forecast\<close>, and with a wire name that has a
  double quote in it.\<close>

definition hyphen_tool :: "nat Tool" where
  "hyphen_tool = forecast_tool\<lparr>title := ''get-forecast''\<rparr>"

definition quote_tool :: "nat Tool" where
  "quote_tool = forecast_tool\<lparr>Tool.name := ''get'' @ [CHR 0x22] @ ''forecast''\<rparr>"


definition seeded_sandbox :: "nat SandboxManagerImpl" where
  "seeded_sandbox = example_sandbox\<lparr>toolOutputCache := [(''weather'', []), (''time'', [])]\<rparr>"

definition example_convert :: "nat CallToolResult \<Rightarrow> nat option" where
  "example_convert output = Some 7"

definition example_serialize :: "nat \<Rightarrow> string" where
  "example_serialize schema = ''inferred''"

definition legacy_fulfilling_run :: "string \<Rightarrow> error + nat exported" where
  "legacy_fulfilling_run code = Inr (Thenable (Fulfilled 42))"

definition legacy_plain_run :: "string \<Rightarrow> error + nat exported" where
  "legacy_plain_run code = Inr (NotThenable 42)"






definition example_stringify_tools :: "nat ToolWithUsage list \<Rightarrow> string" where
  "example_stringify_tools ts = concat (map exampleUsage ts)"



definition two_servers :: "nat ServerInfo js_map" where
  "two_servers = [(''weather'', weather_info), (''time'', time_info)]"

definition two_servers_swapped :: "nat ServerInfo js_map" where
  "two_servers_swapped = [(''time'', time_info), (''weather'', weather_info)]"


section \<open>Properties of the registry\<close>

lemma registerServer_failure_keeps_map:
  "snd (registerServer conv reg n) = Inl e \<Longrightarrow> ServersRegistry.serversInfo (fst (registerServer conv reg n)) = ServersRegistry.serversInfo reg"
  by (auto simp: registerServer_def registerServer_settled_def split: sum.splits)

lemma settled_other:
  "m \<noteq> n \<Longrightarrow> map_of (ServersRegistry.serversInfo (settled_and_caught conv r (n, c))) m = map_of (ServersRegistry.serversInfo r) m"
  by (auto simp: settled_and_caught_def caught_and_logged_def registerServer_settled_def update_conv' split: sum.splits)

lemma settled_console_mono:
  "set (ServersRegistry.console r) \<subseteq> set (ServersRegistry.console (settled_and_caught conv r p))"
  by (cases p) (auto simp: settled_and_caught_def caught_and_logged_def registerServer_settled_def split: sum.splits)

lemma foldl_settled_other:
  "n \<notin> fst ` set ps \<Longrightarrow> map_of (ServersRegistry.serversInfo (foldl (settled_and_caught conv) r ps)) n = map_of (ServersRegistry.serversInfo r) n"
  by (induction ps arbitrary: r) (auto simp: settled_other)

lemma foldl_settled_console_mono:
  "set (ServersRegistry.console r) \<subseteq> set (ServersRegistry.console (foldl (settled_and_caught conv) r ps))"
proof (induction ps arbitrary: r)
  case Nil show ?case by simp
next
  case (Cons p ps)
  have "set (ServersRegistry.console r) \<subseteq> set (ServersRegistry.console (settled_and_caught conv r p))"
    by (rule settled_console_mono)
  also have "\<dots> \<subseteq> set (ServersRegistry.console (foldl (settled_and_caught conv) (settled_and_caught conv r p) ps))"
    by (rule Cons.IH)
  finally show ?case by simp
qed

lemma foldl_settled_at:
  "distinct (map fst ps) \<Longrightarrow> (n, c) \<in> set ps \<Longrightarrow>
   map_of (ServersRegistry.serversInfo (foldl (settled_and_caught conv) r ps)) n =
     map_of (ServersRegistry.serversInfo (fst (registerServer_settled conv r n c))) n"
proof (induction ps arbitrary: r)
  case Nil then show ?case by simp
next
  case (Cons p ps)
  show ?case
  proof (cases "p = (n, c)")
    case True
    then have "n \<notin> fst ` set ps" using Cons.prems(1) by auto
    then show ?thesis
      by (simp add: True foldl_settled_other)
         (auto simp: settled_and_caught_def caught_and_logged_def split: sum.splits)
  next
    case False
    then have in_ps: "(n, c) \<in> set ps" using Cons.prems(2) by auto
    then have "fst p \<noteq> n" using Cons.prems(1) by (auto simp: image_iff)
    then have other: "map_of (ServersRegistry.serversInfo (settled_and_caught conv r p)) n = map_of (ServersRegistry.serversInfo r) n"
      by (cases p) (auto simp: settled_other)
    have "map_of (ServersRegistry.serversInfo (foldl (settled_and_caught conv) (settled_and_caught conv r p) ps)) n =
          map_of (ServersRegistry.serversInfo (fst (registerServer_settled conv (settled_and_caught conv r p) n c))) n"
      using Cons.IH[OF _ in_ps] Cons.prems(1) by simp
    also have "\<dots> = map_of (ServersRegistry.serversInfo (fst (registerServer_settled conv r n c))) n"
      using other by (auto simp: registerServer_settled_def update_conv' split: sum.splits)
    finally show ?thesis by simp
  qed
qed

lemma foldl_settled_logged:
  "(n, c) \<in> set ps \<Longrightarrow> snd (registerServer_settled conv r0 n c) = Inl e \<Longrightarrow>
   FailedToRegister n e \<in> set (ServersRegistry.console (foldl (settled_and_caught conv) r ps))"
proof (induction ps arbitrary: r)
  case Nil then show ?case by simp
next
  case (Cons p ps)
  show ?case
  proof (cases "p = (n, c)")
    case True
    have "FailedToRegister n e \<in> set (ServersRegistry.console (settled_and_caught conv r p))"
      using Cons.prems(2)
      by (auto simp: True settled_and_caught_def caught_and_logged_def registerServer_settled_def split: sum.splits)
    then show ?thesis using foldl_settled_console_mono[of "settled_and_caught conv r p" conv ps] by auto
  next
    case False
    then show ?thesis using Cons by auto
  qed
qed

lemma foldl_rejected:
  "ServersRegistry.serversInfo (foldl rejected_and_caught r rs) = ServersRegistry.serversInfo r \<and>
   ServersRegistry.console (foldl rejected_and_caught r rs) = ServersRegistry.console r @ map (\<lambda>(n, e). FailedToRegister n e) rs"
  by (induction rs arbitrary: r) (auto simp: rejected_and_caught_def caught_and_logged_def)

lemma registerAllServers_each:
  assumes dist: "distinct (map fst (mcpConnection reg))"
    and perm: "\<forall>ps. mset (settle_order ps) = mset ps"
    and conn: "n \<in> fst ` set (mcpConnection reg)"
  shows "case registerServer conv reg n of
           (r, Inl e) \<Rightarrow>
              map_of (ServersRegistry.serversInfo (registerAllServers conv settle_order reg)) n = map_of (ServersRegistry.serversInfo reg) n \<and>
              FailedToRegister n e \<in> set (ServersRegistry.console (registerAllServers conv settle_order reg))
         | (r, Inr _) \<Rightarrow>
              map_of (ServersRegistry.serversInfo (registerAllServers conv settle_order reg)) n = map_of (ServersRegistry.serversInfo r) n"
proof -
  define names where "names = map fst (getAllConnections (mcpConnection reg))"
  define rejected where "rejected = List.map_filter
            (\<lambda>serverName. case registerServer_checks reg serverName of
                             Inl e \<Rightarrow> Some (serverName, e) | Inr _ \<Rightarrow> None) names"
  define pending where "pending = List.map_filter
            (\<lambda>serverName. case registerServer_checks reg serverName of
                             Inl _ \<Rightarrow> None | Inr c \<Rightarrow> Some (serverName, c)) names"
  define reg1 where "reg1 = foldl rejected_and_caught reg rejected"
  define reg2 where "reg2 = foldl (settled_and_caught conv) reg1 (settle_order pending)"
  have all: "ServersRegistry.serversInfo (registerAllServers conv settle_order reg) = ServersRegistry.serversInfo reg2"
    "set (ServersRegistry.console reg2) \<subseteq> set (ServersRegistry.console (registerAllServers conv settle_order reg))"
    by (auto simp: registerAllServers_def Let_def names_def rejected_def pending_def reg1_def reg2_def)
  have n_in: "n \<in> set names" using conn by (simp add: names_def getAllConnections_def)
  have dn: "distinct names" using dist by (simp add: names_def getAllConnections_def)
  have fst_pending: "map fst pending = filter (\<lambda>m. \<exists>c. registerServer_checks reg m = Inr c) names"
    unfolding pending_def List.map_filter_def
    by (induction names) (auto split: sum.splits)
  have dp: "distinct (map fst (settle_order pending))"
  proof -
    have "mset (map fst (settle_order pending)) = mset (map fst pending)"
      using perm by simp
    moreover have "distinct (map fst pending)" using dn by (simp add: fst_pending)
    ultimately show ?thesis by (metis mset_eq_imp_distinct_iff)
  qed
  have sp: "set (settle_order pending) = set pending"
    using perm by (metis mset_eq_setD)
  have reg1: "ServersRegistry.serversInfo reg1 = ServersRegistry.serversInfo reg"
    "ServersRegistry.console reg1 = ServersRegistry.console reg @ map (\<lambda>(n, e). FailedToRegister n e) rejected"
    using foldl_rejected[of reg rejected] by (simp_all add: reg1_def)
  show ?thesis
  proof (cases "registerServer_checks reg n")
    case (Inl e)
    then have "(n, e) \<in> set rejected"
      using n_in by (force simp: rejected_def List.map_filter_def image_iff)
    then have "FailedToRegister n e \<in> set (ServersRegistry.console reg1)"
      by (force simp: reg1(2))
    then have logged: "FailedToRegister n e \<in> set (ServersRegistry.console reg2)"
      using foldl_settled_console_mono[of reg1 conv "settle_order pending"] by (auto simp: reg2_def)
    have "n \<notin> set (map fst pending)"
      using Inl by (simp add: fst_pending)
    then have "n \<notin> fst ` set (settle_order pending)"
      by (simp add: sp)
    then have "map_of (ServersRegistry.serversInfo reg2) n = map_of (ServersRegistry.serversInfo reg) n"
      by (simp add: reg2_def foldl_settled_other reg1(1))
    then show ?thesis using logged all Inl by (auto simp: registerServer_def)
  next
    case (Inr c)
    then have "(n, c) \<in> set pending"
      using n_in by (force simp: pending_def List.map_filter_def image_iff)
    then have mem: "(n, c) \<in> set (settle_order pending)" by (simp add: sp)
    have at: "map_of (ServersRegistry.serversInfo reg2) n = map_of (ServersRegistry.serversInfo (fst (registerServer_settled conv reg1 n c))) n"
      unfolding reg2_def by (rule foldl_settled_at[OF dp mem])
    have same: "map_of (ServersRegistry.serversInfo (fst (registerServer_settled conv reg1 n c))) n =
                map_of (ServersRegistry.serversInfo (fst (registerServer_settled conv reg n c))) n"
      by (auto simp: registerServer_settled_def reg1(1) update_conv' split: sum.splits)
    show ?thesis
    proof (cases "snd (registerServer_settled conv reg n c)")
      case (Inl e)
      have "FailedToRegister n e \<in> set (ServersRegistry.console reg2)"
        unfolding reg2_def by (rule foldl_settled_logged[OF mem Inl])
      moreover have "map_of (ServersRegistry.serversInfo (fst (registerServer_settled conv reg n c))) n = map_of (ServersRegistry.serversInfo reg) n"
        using Inl by (auto simp: registerServer_settled_def split: sum.splits)
      ultimately show ?thesis using Inl \<open>registerServer_checks reg n = Inr c\<close> at same all
        by (cases "registerServer_settled conv reg n c") (auto simp: registerServer_def)
    next
      case (Inr u)
      then show ?thesis using \<open>registerServer_checks reg n = Inr c\<close> at same all
        by (cases "registerServer_settled conv reg n c") (auto simp: registerServer_def)
    qed
  qed
qed


lemma registerServer_cases:
  "(map_of (ServersRegistry.serversInfo reg) n \<noteq> None \<longrightarrow>
      registerServer conv reg n =
        (reg, Inl (Error (''Server '' @ quoted n @ '' is already registered'')))) \<and>
   (map_of (ServersRegistry.serversInfo reg) n = None \<and> getConnection (mcpConnection reg) n = None \<longrightarrow>
      registerServer conv reg n =
        (reg, Inl (Error (''Connection for server '' @ quoted n @ '' not found'')))) \<and>
   (map_of (ServersRegistry.serversInfo reg) n = None \<and> getConnection (mcpConnection reg) n = Some c \<and>
    listTools c = Inl e \<longrightarrow>
      (\<exists>thrown. snd (registerServer conv reg n) = Inl thrown) \<and>
      ServersRegistry.serversInfo (fst (registerServer conv reg n)) = ServersRegistry.serversInfo reg \<and>
      (\<forall>kind msg. e = ThrownError kind msg \<longrightarrow>
         registerServer conv reg n =
           (reg\<lparr>ServersRegistry.console := ServersRegistry.console reg @ [FailedToRegisterServer n e]\<rparr>,
            Inl (Error (''Failed to register server '' @ quoted n @ '': '' @ msg))))) \<and>
   (map_of (ServersRegistry.serversInfo reg) n = None \<and> getConnection (mcpConnection reg) n = Some c \<and>
    listTools c = Inr ts \<longrightarrow>
      snd (registerServer conv reg n) = Inr () \<and>
      map_of (ServersRegistry.serversInfo (fst (registerServer conv reg n))) n =
        Some \<lparr>ServerInfo.name = n, client = Some c,
              tools = map (\<lambda>t. t\<lparr>title := conv (Tool.name t)\<rparr>) ts\<rparr> \<and>
      (\<forall>m. m \<noteq> n \<longrightarrow>
         map_of (ServersRegistry.serversInfo (fst (registerServer conv reg n))) m =
           map_of (ServersRegistry.serversInfo reg) m) \<and>
      ServersRegistry.console (fst (registerServer conv reg n)) =
        ServersRegistry.console reg @ [RegisteredServer n (length ts)])"
  by (auto simp: registerServer_def registerServer_checks_def registerServer_settled_def update_conv'
      split: sum.splits)

lemma registerAllServers_other:
  assumes perm: "\<forall>ps. mset (settle_order ps) = mset ps"
    and other: "n \<notin> fst ` set (mcpConnection reg)"
  shows "map_of (ServersRegistry.serversInfo (registerAllServers conv settle_order reg)) n =
           map_of (ServersRegistry.serversInfo reg) n"
proof -
  define names where "names = map fst (getAllConnections (mcpConnection reg))"
  define rejected where "rejected = List.map_filter
            (\<lambda>serverName. case registerServer_checks reg serverName of
                             Inl e \<Rightarrow> Some (serverName, e) | Inr _ \<Rightarrow> None) names"
  define pending where "pending = List.map_filter
            (\<lambda>serverName. case registerServer_checks reg serverName of
                             Inl _ \<Rightarrow> None | Inr c \<Rightarrow> Some (serverName, c)) names"
  define reg1 where "reg1 = foldl rejected_and_caught reg rejected"
  define reg2 where "reg2 = foldl (settled_and_caught conv) reg1 (settle_order pending)"
  have all: "ServersRegistry.serversInfo (registerAllServers conv settle_order reg) = ServersRegistry.serversInfo reg2"
    by (auto simp: registerAllServers_def Let_def names_def rejected_def pending_def reg1_def reg2_def)
  have "fst ` set pending \<subseteq> set names"
    unfolding pending_def List.map_filter_def by (auto split: sum.splits)
  moreover have "set (settle_order pending) = set pending"
    using perm by (metis mset_eq_setD)
  moreover have "n \<notin> set names" using other by (simp add: names_def getAllConnections_def)
  ultimately have "n \<notin> fst ` set (settle_order pending)" by auto
  then have "map_of (ServersRegistry.serversInfo reg2) n = map_of (ServersRegistry.serversInfo reg1) n"
    by (simp add: reg2_def foldl_settled_other)
  also have "\<dots> = map_of (ServersRegistry.serversInfo reg) n"
    using foldl_rejected[of reg rejected] by (simp add: reg1_def)
  finally show ?thesis by (simp add: all)
qed

lemma registerAllServers_connection:
  assumes dist: "distinct (map fst (mcpConnection reg))"
    and perm: "\<forall>ps. mset (settle_order ps) = mset ps"
    and conn: "(m, c) \<in> set (mcpConnection reg)"
  shows
    "(map_of (ServersRegistry.serversInfo reg) m \<noteq> None \<longrightarrow>
        map_of (ServersRegistry.serversInfo (registerAllServers conv settle_order reg)) m =
          map_of (ServersRegistry.serversInfo reg) m \<and>
        FailedToRegister m (Error (''Server '' @ quoted m @ '' is already registered''))
          \<in> set (ServersRegistry.console (registerAllServers conv settle_order reg))) \<and>
     (\<forall>e. map_of (ServersRegistry.serversInfo reg) m = None \<and> listTools c = Inl e \<longrightarrow>
        map_of (ServersRegistry.serversInfo (registerAllServers conv settle_order reg)) m = None \<and>
        (\<exists>thrown. FailedToRegister m thrown
           \<in> set (ServersRegistry.console (registerAllServers conv settle_order reg))) \<and>
        (\<forall>kind msg. e = ThrownError kind msg \<longrightarrow>
           FailedToRegister m (Error (''Failed to register server '' @ quoted m @ '': '' @ msg))
             \<in> set (ServersRegistry.console (registerAllServers conv settle_order reg)))) \<and>
     (\<forall>ts. map_of (ServersRegistry.serversInfo reg) m = None \<and> listTools c = Inr ts \<longrightarrow>
        map_of (ServersRegistry.serversInfo (registerAllServers conv settle_order reg)) m =
          Some \<lparr>ServerInfo.name = m, client = Some c,
                tools = map (\<lambda>t. t\<lparr>title := conv (Tool.name t)\<rparr>) ts\<rparr>)"
proof -
  have m_in: "m \<in> fst ` set (mcpConnection reg)" using conn by force
  have get: "getConnection (mcpConnection reg) m = Some c"
    using dist conn by (simp add: getConnection_def)
  note each = registerAllServers_each[OF dist perm m_in, of conv]
  have registered: "map_of (ServersRegistry.serversInfo reg) m \<noteq> None \<longrightarrow>
        map_of (ServersRegistry.serversInfo (registerAllServers conv settle_order reg)) m =
          map_of (ServersRegistry.serversInfo reg) m \<and>
        FailedToRegister m (Error (''Server '' @ quoted m @ '' is already registered''))
          \<in> set (ServersRegistry.console (registerAllServers conv settle_order reg))"
  proof
    assume "map_of (ServersRegistry.serversInfo reg) m \<noteq> None"
    then have "registerServer conv reg m =
        (reg, Inl (Error (''Server '' @ quoted m @ '' is already registered'')))"
      using registerServer_cases[of reg m conv c] by blast
    then show "map_of (ServersRegistry.serversInfo (registerAllServers conv settle_order reg)) m =
          map_of (ServersRegistry.serversInfo reg) m \<and>
        FailedToRegister m (Error (''Server '' @ quoted m @ '' is already registered''))
          \<in> set (ServersRegistry.console (registerAllServers conv settle_order reg))"
      using each by simp
  qed
  have failing: "map_of (ServersRegistry.serversInfo reg) m = None \<and> listTools c = Inl e \<longrightarrow>
        map_of (ServersRegistry.serversInfo (registerAllServers conv settle_order reg)) m = None \<and>
        (\<exists>thrown. FailedToRegister m thrown
           \<in> set (ServersRegistry.console (registerAllServers conv settle_order reg))) \<and>
        (\<forall>kind msg. e = ThrownError kind msg \<longrightarrow>
           FailedToRegister m (Error (''Failed to register server '' @ quoted m @ '': '' @ msg))
             \<in> set (ServersRegistry.console (registerAllServers conv settle_order reg)))" for e
  proof
    assume a: "map_of (ServersRegistry.serversInfo reg) m = None \<and> listTools c = Inl e"
    then have r: "(\<exists>thrown. snd (registerServer conv reg m) = Inl thrown) \<and>
      (\<forall>kind msg. e = ThrownError kind msg \<longrightarrow>
         registerServer conv reg m =
           (reg\<lparr>ServersRegistry.console := ServersRegistry.console reg @ [FailedToRegisterServer m e]\<rparr>,
            Inl (Error (''Failed to register server '' @ quoted m @ '': '' @ msg))))"
      using registerServer_cases[of reg m conv c e] get by blast
    then obtain thrown where t: "snd (registerServer conv reg m) = Inl thrown" by blast
    have unchanged: "map_of (ServersRegistry.serversInfo (registerAllServers conv settle_order reg)) m = None"
      and logged: "FailedToRegister m thrown
           \<in> set (ServersRegistry.console (registerAllServers conv settle_order reg))"
      using each t a by (cases "registerServer conv reg m"; simp)+
    have "FailedToRegister m (Error (''Failed to register server '' @ quoted m @ '': '' @ msg))
             \<in> set (ServersRegistry.console (registerAllServers conv settle_order reg))"
      if "e = ThrownError kind msg" for kind msg
      using r that t logged by simp
    then show "map_of (ServersRegistry.serversInfo (registerAllServers conv settle_order reg)) m = None \<and>
        (\<exists>thrown. FailedToRegister m thrown
           \<in> set (ServersRegistry.console (registerAllServers conv settle_order reg))) \<and>
        (\<forall>kind msg. e = ThrownError kind msg \<longrightarrow>
           FailedToRegister m (Error (''Failed to register server '' @ quoted m @ '': '' @ msg))
             \<in> set (ServersRegistry.console (registerAllServers conv settle_order reg)))"
      using unchanged logged by blast
  qed
  have succeeding: "map_of (ServersRegistry.serversInfo reg) m = None \<and> listTools c = Inr ts \<longrightarrow>
        map_of (ServersRegistry.serversInfo (registerAllServers conv settle_order reg)) m =
          Some \<lparr>ServerInfo.name = m, client = Some c,
                tools = map (\<lambda>t. t\<lparr>title := conv (Tool.name t)\<rparr>) ts\<rparr>" for ts
  proof
    assume a: "map_of (ServersRegistry.serversInfo reg) m = None \<and> listTools c = Inr ts"
    then have r: "snd (registerServer conv reg m) = Inr () \<and>
      map_of (ServersRegistry.serversInfo (fst (registerServer conv reg m))) m =
        Some \<lparr>ServerInfo.name = m, client = Some c,
              tools = map (\<lambda>t. t\<lparr>title := conv (Tool.name t)\<rparr>) ts\<rparr>"
      using registerServer_cases[of reg m conv c _ ts] get by blast
    then show "map_of (ServersRegistry.serversInfo (registerAllServers conv settle_order reg)) m =
          Some \<lparr>ServerInfo.name = m, client = Some c,
                tools = map (\<lambda>t. t\<lparr>title := conv (Tool.name t)\<rparr>) ts\<rparr>"
      using each by (cases "registerServer conv reg m") auto
  qed
  show ?thesis using registered failing succeeding by blast
qed


text \<open>
  C9: \<^verbatim>\<open>registerServer\<close> throws when the server is already registered and when there is
  no connection handle for it, both times with the registry as it was. With a handle
  for an unregistered server it throws exactly when \<^verbatim>\<open>listTools\<close> fails, and the map of
  the registry is then what it was, with no entry for the server; when the failure is an
  instance of \<^verbatim>\<open>Error\<close>, it is logged and the error thrown is
  \<open>Failed to register server '<name>': <message>\<close>.
  When \<^verbatim>\<open>listTools\<close> succeeds the map gets the server's entry (the handle and the listed
  tools, each with its converted title) and no other key changes. So whenever
  \<^verbatim>\<open>registerServer\<close> throws, the map is what it was.

  \<^verbatim>\<open>registerAllServers\<close> catches and logs each failure and still registers the others, in
  whatever order the pending calls settle: of the connections, a server that is already
  registered keeps its entry and the failure is in the log; an unregistered server whose
  \<^verbatim>\<open>listTools\<close> fails has no entry afterwards and its failure is in the log; and every
  unregistered server whose \<^verbatim>\<open>listTools\<close> succeeds has its entry afterwards, whatever
  happened to the other servers. Names without a connection keep what they had. The
  connection map is a \<^verbatim>\<open>Map\<close>, so its keys are distinct.
\<close>

theorem registration_failures_add_no_entry:
  assumes "distinct (map fst (mcpConnection reg))"
    and "\<forall>ps. mset (settle_order ps) = mset ps"
  shows
    "(map_of (ServersRegistry.serversInfo reg) n \<noteq> None \<longrightarrow>
        registerServer conv reg n =
          (reg, Inl (Error (''Server '' @ quoted n @ '' is already registered'')))) \<and>
     (map_of (ServersRegistry.serversInfo reg) n = None \<and> getConnection (mcpConnection reg) n = None \<longrightarrow>
        registerServer conv reg n =
          (reg, Inl (Error (''Connection for server '' @ quoted n @ '' not found'')))) \<and>
     (\<forall>c e. map_of (ServersRegistry.serversInfo reg) n = None \<and>
             getConnection (mcpConnection reg) n = Some c \<and> listTools c = Inl e \<longrightarrow>
        (\<exists>thrown. snd (registerServer conv reg n) = Inl thrown) \<and>
        ServersRegistry.serversInfo (fst (registerServer conv reg n)) =
          ServersRegistry.serversInfo reg \<and>
        (\<forall>kind msg. e = ThrownError kind msg \<longrightarrow>
           registerServer conv reg n =
             (reg\<lparr>ServersRegistry.console :=
                    ServersRegistry.console reg @ [FailedToRegisterServer n e]\<rparr>,
              Inl (Error (''Failed to register server '' @ quoted n @ '': '' @ msg))))) \<and>
     (\<forall>c ts. map_of (ServersRegistry.serversInfo reg) n = None \<and>
              getConnection (mcpConnection reg) n = Some c \<and> listTools c = Inr ts \<longrightarrow>
        snd (registerServer conv reg n) = Inr () \<and>
        map_of (ServersRegistry.serversInfo (fst (registerServer conv reg n))) n =
          Some \<lparr>ServerInfo.name = n, client = Some c,
                tools = map (\<lambda>t. t\<lparr>title := conv (Tool.name t)\<rparr>) ts\<rparr> \<and>
        (\<forall>m. m \<noteq> n \<longrightarrow>
           map_of (ServersRegistry.serversInfo (fst (registerServer conv reg n))) m =
             map_of (ServersRegistry.serversInfo reg) m)) \<and>
     (\<forall>e. snd (registerServer conv reg n) = Inl e \<longrightarrow>
        ServersRegistry.serversInfo (fst (registerServer conv reg n)) =
          ServersRegistry.serversInfo reg) \<and>
     (\<forall>m c. (m, c) \<in> set (mcpConnection reg) \<longrightarrow>
        (map_of (ServersRegistry.serversInfo reg) m \<noteq> None \<longrightarrow>
           map_of (ServersRegistry.serversInfo (registerAllServers conv settle_order reg)) m =
             map_of (ServersRegistry.serversInfo reg) m \<and>
           FailedToRegister m (Error (''Server '' @ quoted m @ '' is already registered''))
             \<in> set (ServersRegistry.console (registerAllServers conv settle_order reg))) \<and>
        (\<forall>e. map_of (ServersRegistry.serversInfo reg) m = None \<and> listTools c = Inl e \<longrightarrow>
           map_of (ServersRegistry.serversInfo (registerAllServers conv settle_order reg)) m = None \<and>
           (\<exists>thrown. FailedToRegister m thrown
              \<in> set (ServersRegistry.console (registerAllServers conv settle_order reg))) \<and>
           (\<forall>kind msg. e = ThrownError kind msg \<longrightarrow>
              FailedToRegister m (Error (''Failed to register server '' @ quoted m @ '': '' @ msg))
                \<in> set (ServersRegistry.console (registerAllServers conv settle_order reg)))) \<and>
        (\<forall>ts. map_of (ServersRegistry.serversInfo reg) m = None \<and> listTools c = Inr ts \<longrightarrow>
           map_of (ServersRegistry.serversInfo (registerAllServers conv settle_order reg)) m =
             Some \<lparr>ServerInfo.name = m, client = Some c,
                   tools = map (\<lambda>t. t\<lparr>title := conv (Tool.name t)\<rparr>) ts\<rparr>)) \<and>
     (\<forall>m. m \<notin> fst ` set (mcpConnection reg) \<longrightarrow>
        map_of (ServersRegistry.serversInfo (registerAllServers conv settle_order reg)) m =
          map_of (ServersRegistry.serversInfo reg) m)"
proof -
  note one = registerServer_cases[of reg n conv]
  have registered: "map_of (ServersRegistry.serversInfo reg) n \<noteq> None \<longrightarrow>
        registerServer conv reg n =
          (reg, Inl (Error (''Server '' @ quoted n @ '' is already registered'')))"
    using one by blast
  have no_handle: "map_of (ServersRegistry.serversInfo reg) n = None \<and>
        getConnection (mcpConnection reg) n = None \<longrightarrow>
        registerServer conv reg n =
          (reg, Inl (Error (''Connection for server '' @ quoted n @ '' not found'')))"
    using one by blast
  have failing: "\<forall>c e. map_of (ServersRegistry.serversInfo reg) n = None \<and>
             getConnection (mcpConnection reg) n = Some c \<and> listTools c = Inl e \<longrightarrow>
        (\<exists>thrown. snd (registerServer conv reg n) = Inl thrown) \<and>
        ServersRegistry.serversInfo (fst (registerServer conv reg n)) =
          ServersRegistry.serversInfo reg \<and>
        (\<forall>kind msg. e = ThrownError kind msg \<longrightarrow>
           registerServer conv reg n =
             (reg\<lparr>ServersRegistry.console :=
                    ServersRegistry.console reg @ [FailedToRegisterServer n e]\<rparr>,
              Inl (Error (''Failed to register server '' @ quoted n @ '': '' @ msg))))"
    using one by blast
  have succeeding: "\<forall>c ts. map_of (ServersRegistry.serversInfo reg) n = None \<and>
              getConnection (mcpConnection reg) n = Some c \<and> listTools c = Inr ts \<longrightarrow>
        snd (registerServer conv reg n) = Inr () \<and>
        map_of (ServersRegistry.serversInfo (fst (registerServer conv reg n))) n =
          Some \<lparr>ServerInfo.name = n, client = Some c,
                tools = map (\<lambda>t. t\<lparr>title := conv (Tool.name t)\<rparr>) ts\<rparr> \<and>
        (\<forall>m. m \<noteq> n \<longrightarrow>
           map_of (ServersRegistry.serversInfo (fst (registerServer conv reg n))) m =
             map_of (ServersRegistry.serversInfo reg) m)"
    using one by blast
  have thrown: "\<forall>e. snd (registerServer conv reg n) = Inl e \<longrightarrow>
        ServersRegistry.serversInfo (fst (registerServer conv reg n)) =
          ServersRegistry.serversInfo reg"
    using registerServer_failure_keeps_map by blast
  have connections: "\<forall>m c. (m, c) \<in> set (mcpConnection reg) \<longrightarrow>
        (map_of (ServersRegistry.serversInfo reg) m \<noteq> None \<longrightarrow>
           map_of (ServersRegistry.serversInfo (registerAllServers conv settle_order reg)) m =
             map_of (ServersRegistry.serversInfo reg) m \<and>
           FailedToRegister m (Error (''Server '' @ quoted m @ '' is already registered''))
             \<in> set (ServersRegistry.console (registerAllServers conv settle_order reg))) \<and>
        (\<forall>e. map_of (ServersRegistry.serversInfo reg) m = None \<and> listTools c = Inl e \<longrightarrow>
           map_of (ServersRegistry.serversInfo (registerAllServers conv settle_order reg)) m = None \<and>
           (\<exists>thrown. FailedToRegister m thrown
              \<in> set (ServersRegistry.console (registerAllServers conv settle_order reg))) \<and>
           (\<forall>kind msg. e = ThrownError kind msg \<longrightarrow>
              FailedToRegister m (Error (''Failed to register server '' @ quoted m @ '': '' @ msg))
                \<in> set (ServersRegistry.console (registerAllServers conv settle_order reg)))) \<and>
        (\<forall>ts. map_of (ServersRegistry.serversInfo reg) m = None \<and> listTools c = Inr ts \<longrightarrow>
           map_of (ServersRegistry.serversInfo (registerAllServers conv settle_order reg)) m =
             Some \<lparr>ServerInfo.name = m, client = Some c,
                   tools = map (\<lambda>t. t\<lparr>title := conv (Tool.name t)\<rparr>) ts\<rparr>)"
    using registerAllServers_connection[OF assms] by blast
  have others: "\<forall>m. m \<notin> fst ` set (mcpConnection reg) \<longrightarrow>
        map_of (ServersRegistry.serversInfo (registerAllServers conv settle_order reg)) m =
          map_of (ServersRegistry.serversInfo reg) m"
    using registerAllServers_other[OF assms(2)] by blast
  from registered no_handle failing succeeding thrown connections others
  show ?thesis by (intro conjI)
qed

theorem registration_failures_add_no_entry_witness:
  "distinct (map fst (mcpConnection example_registry)) \<and>
   (\<forall>ps :: (string \<times> nat Client) list. mset (rev ps) = mset ps) \<and>
   registerServer id example_registry ''time'' =
     (example_registry, Inl (Error ''Server 'time' is already registered'')) \<and>
   registerServer id example_registry ''clock'' =
     (example_registry, Inl (Error ''Connection for server 'clock' not found'')) \<and>
   getConnection (mcpConnection example_registry) ''files'' = Some failing_client \<and>
   listTools failing_client = Inl (Error ''Connection closed'') \<and>
   registerServer id example_registry ''files'' =
     (example_registry\<lparr>ServersRegistry.console :=
        [FailedToRegisterServer ''files'' (Error ''Connection closed'')]\<rparr>,
      Inl (Error ''Failed to register server 'files': Connection closed'')) \<and>
   map_of (ServersRegistry.serversInfo (registerAllServers id rev example_registry)) ''time'' =
     Some time_info \<and>
   FailedToRegister ''time'' (Error ''Server 'time' is already registered'')
     \<in> set (ServersRegistry.console (registerAllServers id rev example_registry)) \<and>
   map_of (ServersRegistry.serversInfo (registerAllServers id rev example_registry)) ''files'' = None \<and>
   FailedToRegister ''files'' (Error ''Failed to register server 'files': Connection closed'')
     \<in> set (ServersRegistry.console (registerAllServers id rev example_registry)) \<and>
   map_of (ServersRegistry.serversInfo (registerAllServers id rev example_registry)) ''weather'' =
     Some weather_info \<and>
   map_of (ServersRegistry.serversInfo (registerAllServers id rev example_registry)) ''clock'' = None"
proof -
  have d: "distinct (map fst (mcpConnection example_registry))"
    by (simp add: example_registry_def)
  have p: "\<forall>ps :: (string \<times> nat Client) list. mset (rev ps) = mset ps"
    by simp
  note t = registration_failures_add_no_entry [OF d p, where conv = id]
  have time: "registerServer id example_registry ''time'' =
     (example_registry, Inl (Error ''Server 'time' is already registered''))"
    using t [of "''time''"] by (simp add: example_registry_def quoted_def)
  have clock: "registerServer id example_registry ''clock'' =
     (example_registry, Inl (Error ''Connection for server 'clock' not found''))"
    using t [of "''clock''"] by (simp add: example_registry_def quoted_def getConnection_def)
  have handle: "getConnection (mcpConnection example_registry) ''files'' = Some failing_client"
    by (simp add: example_registry_def getConnection_def)
  have closed: "listTools failing_client = Inl (Error ''Connection closed'')"
    by (simp add: failing_client_def)
  have none: "map_of (ServersRegistry.serversInfo example_registry) ''files'' = None"
    "map_of (ServersRegistry.serversInfo example_registry) ''weather'' = None"
    "map_of (ServersRegistry.serversInfo example_registry) ''clock'' = None"
    "map_of (ServersRegistry.serversInfo example_registry) ''time'' = Some time_info"
    by (simp_all add: example_registry_def)
  have files: "registerServer id example_registry ''files'' =
     (example_registry\<lparr>ServersRegistry.console :=
        [FailedToRegisterServer ''files'' (Error ''Connection closed'')]\<rparr>,
      Inl (Error ''Failed to register server 'files': Connection closed''))"
    using t [of "''files''", THEN conjunct2, THEN conjunct2, THEN conjunct1, rule_format,
             of failing_client "Error ''Connection closed''", THEN conjunct2, THEN conjunct2,
             rule_format, of "''Error''" "''Connection closed''"] none handle closed
    by (simp add: quoted_def) (simp add: example_registry_def)
  note each = t [of "''files''", THEN conjunct2, THEN conjunct2, THEN conjunct2, THEN conjunct2,
                 THEN conjunct2, THEN conjunct1, rule_format]
  have all_time: "map_of (ServersRegistry.serversInfo (registerAllServers id rev example_registry)) ''time'' =
     Some time_info \<and>
   FailedToRegister ''time'' (Error ''Server 'time' is already registered'')
     \<in> set (ServersRegistry.console (registerAllServers id rev example_registry))"
    using each [of "''time''" time_client, THEN conjunct1] none
    by (simp add: quoted_def) (simp add: example_registry_def)
  have all_files: "map_of (ServersRegistry.serversInfo (registerAllServers id rev example_registry)) ''files'' = None \<and>
   FailedToRegister ''files'' (Error ''Failed to register server 'files': Connection closed'')
     \<in> set (ServersRegistry.console (registerAllServers id rev example_registry))"
    using each [of "''files''" failing_client, THEN conjunct2, THEN conjunct1, rule_format,
                of "Error ''Connection closed''"] none closed
    by (simp add: quoted_def) (simp add: example_registry_def)
  have all_weather: "map_of (ServersRegistry.serversInfo (registerAllServers id rev example_registry)) ''weather'' =
     Some weather_info"
    using each [of "''weather''" weather_client, THEN conjunct2, THEN conjunct2, rule_format,
                of "[forecast_tool]"] none
    by (simp add: weather_info_def weather_client_def forecast_tool_def)
       (simp add: example_registry_def weather_client_def forecast_tool_def)
  have all_clock: "map_of (ServersRegistry.serversInfo (registerAllServers id rev example_registry)) ''clock'' = None"
    using t [of "''files''", THEN conjunct2, THEN conjunct2, THEN conjunct2, THEN conjunct2,
             THEN conjunct2, THEN conjunct2, rule_format, of "''clock''"] none
    by (simp add: example_registry_def)
  from d p time clock handle closed files all_time all_files all_weather all_clock
  show ?thesis by simp
qed


text \<open>
  C10: for a server name that is not registered, \<^verbatim>\<open>getTool\<close> throws (it does not return
  \<^verbatim>\<open>undefined\<close>), whatever the tool name; it returns \<^verbatim>\<open>undefined\<close> exactly when the
  server is registered and none of its tools has the given wire name.
\<close>

theorem getTool_throws_or_finds:
  "(map_of (ServersRegistry.serversInfo reg) serverName = None \<longrightarrow>
      getTool reg serverName toolName =
        Inl (Error (''Server '' @ quoted serverName @ '' not found in registry''))) \<and>
   (getTool reg serverName toolName = Inr None \<longleftrightarrow>
      (\<exists>serverInfo. map_of (ServersRegistry.serversInfo reg) serverName = Some serverInfo \<and>
         (\<forall>tool \<in> set (tools serverInfo). Tool.name tool \<noteq> toolName)))"
  by (auto simp: getTool_def find_None_iff split: option.splits)

theorem getTool_throws_or_finds_witness:
  "map_of (ServersRegistry.serversInfo example_registry) ''weather'' = None \<and>
   getTool example_registry ''weather'' ''get_forecast'' =
     Inl (Error ''Server 'weather' not found in registry'') \<and>
   getTool example_registry ''time'' ''get_forecast'' = Inr None"
  using getTool_throws_or_finds [of example_registry "''weather''" "''get_forecast''"]
    getTool_throws_or_finds [of example_registry "''time''" "''get_forecast''"]
  by (simp add: example_registry_def time_info_def now_tool_def quoted_def)


section \<open>Properties of the schema-inference drain\<close>

lemma find_set_outputSchema_other:
  "t' \<noteq> t \<Longrightarrow> find (\<lambda>x. Tool.name x = t') (set_outputSchema t sch ts) = find (\<lambda>x. Tool.name x = t') ts"
  by (induction ts) auto

text \<open>What one iteration does, as three cases.\<close>

lemma save_output_schema_cases:
  "save_output_schema conv ser s e st = st \<or>
   (\<exists>err. save_output_schema conv ser s e st =
      st\<lparr>SandboxManagerImpl.console := SandboxManagerImpl.console st @ [FailedToSaveOutputSchema s (fst e) err]\<rparr>) \<or>
   (\<exists>schema existing. 
      conv (snd e) = Some schema \<and> toolDatabase st (s, fst e) = Some existing \<and> \<not> originalOutputSchema existing \<and>
      toolDatabase (save_output_schema conv ser s e st) =
        (toolDatabase st)((s, fst e) \<mapsto> existing\<lparr>ToolRow.outputSchema := Some (ser schema), originalOutputSchema := False\<rparr>) \<and>
      (SandboxManagerImpl.serversInfo (save_output_schema conv ser s e st) = SandboxManagerImpl.serversInfo st \<or>
       (\<exists>serverInfo. map_of (SandboxManagerImpl.serversInfo st) s = Some serverInfo \<and>
          SandboxManagerImpl.serversInfo (save_output_schema conv ser s e st) =
            AList.update s (serverInfo\<lparr>tools := set_outputSchema (fst e) schema (tools serverInfo)\<rparr>)
              (SandboxManagerImpl.serversInfo st))))"
proof (cases "conv (snd e)")
  case None
  then show ?thesis by (simp add: save_output_schema_def Let_def)
next
  case (Some schema)
  show ?thesis
  proof (cases "toolDatabase st (s, fst e)")
    case None
    then have "save_output_schema conv ser s e st =
        st\<lparr>SandboxManagerImpl.console := SandboxManagerImpl.console st @
             [FailedToSaveOutputSchema s (fst e)
                (Error (''Tool '' @ fst e @ '' not found in database for server '' @ s))]\<rparr>"
      using Some by (simp add: save_output_schema_def database_getTool_def Let_def)
    then show ?thesis by blast
  next
    case (Some existing)
    show ?thesis
    proof (cases "originalOutputSchema existing")
      case True
      then show ?thesis using Some \<open>conv (snd e) = Some schema\<close>
        by (simp add: save_output_schema_def database_getTool_def Let_def)
    next
      case False
      have "toolDatabase (save_output_schema conv ser s e st) =
        (toolDatabase st)((s, fst e) \<mapsto> existing\<lparr>ToolRow.outputSchema := Some (ser schema), originalOutputSchema := False\<rparr>)"
        using Some \<open>conv (snd e) = Some schema\<close> False
        by (simp add: save_output_schema_def database_getTool_def database_updateTool_def Let_def
            split: option.splits)
      moreover have "SandboxManagerImpl.serversInfo (save_output_schema conv ser s e st) = SandboxManagerImpl.serversInfo st \<or>
       (\<exists>serverInfo. map_of (SandboxManagerImpl.serversInfo st) s = Some serverInfo \<and>
          SandboxManagerImpl.serversInfo (save_output_schema conv ser s e st) =
            AList.update s (serverInfo\<lparr>tools := set_outputSchema (fst e) schema (tools serverInfo)\<rparr>)
              (SandboxManagerImpl.serversInfo st))"
        using Some \<open>conv (snd e) = Some schema\<close> False
        by (simp add: save_output_schema_def database_getTool_def Let_def split: option.splits)
      ultimately show ?thesis using Some \<open>conv (snd e) = Some schema\<close> False by blast
    qed
  qed
qed


lemma save_database:
  assumes "toolDatabase (save_output_schema conv ser s e st) k \<noteq> toolDatabase st k"
  shows "takes_inferred (toolDatabase st) k"
proof -
  from save_output_schema_cases[of conv ser s e st] assms
  obtain schema existing where
    row: "toolDatabase st (s, fst e) = Some existing" "\<not> originalOutputSchema existing" and
    db: "toolDatabase (save_output_schema conv ser s e st) =
        (toolDatabase st)((s, fst e) \<mapsto> existing\<lparr>ToolRow.outputSchema := Some (ser schema), originalOutputSchema := False\<rparr>)"
    by auto
  have "k = (s, fst e)" using assms db by (auto split: if_splits)
  then show ?thesis using row by (simp add: takes_inferred_def)
qed

lemma save_takes_inferred:
  "takes_inferred (toolDatabase (save_output_schema conv ser s e st)) k = takes_inferred (toolDatabase st) k"
  using save_output_schema_cases[of conv ser s e st]
  by (auto simp: takes_inferred_def split: option.splits if_splits)

lemma save_in_memory:
  assumes "in_memory_schema (SandboxManagerImpl.serversInfo (save_output_schema conv ser s e st)) s' t'
      \<noteq> in_memory_schema (SandboxManagerImpl.serversInfo st) s' t'"
  shows "takes_inferred (toolDatabase st) (s', t')"
proof -
  from save_output_schema_cases[of conv ser s e st] assms
  obtain schema existing serverInfo where
    row: "toolDatabase st (s, fst e) = Some existing" "\<not> originalOutputSchema existing" and
    si: "map_of (SandboxManagerImpl.serversInfo st) s = Some serverInfo" and
    upd: "SandboxManagerImpl.serversInfo (save_output_schema conv ser s e st) =
            AList.update s (serverInfo\<lparr>tools := set_outputSchema (fst e) schema (tools serverInfo)\<rparr>)
              (SandboxManagerImpl.serversInfo st)"
    by auto
  have "s' = s"
  proof (rule ccontr)
    assume "s' \<noteq> s"
    then show False using assms by (simp add: in_memory_schema_def upd update_conv')
  qed
  moreover have "t' = fst e"
  proof (rule ccontr)
    assume "t' \<noteq> fst e"
    then show False using assms \<open>s' = s\<close>
      by (simp add: in_memory_schema_def upd update_conv' si find_set_outputSchema_other)
  qed
  ultimately show ?thesis using row by (simp add: takes_inferred_def)
qed

lemma save_entry_pair:
  "save_entry conv ser st (s, e) = save_output_schema conv ser s e st"
  by (simp add: save_entry_def)

lemma inner_loop:
  "foldl (\<lambda>s' entry. save_output_schema conv ser srv entry s') st outs =
   foldl (save_entry conv ser) st (map (Pair srv) outs)"
  by (induction outs arbitrary: st) (simp_all add: save_entry_pair)

lemma updateOutputSchema_entries:
  "updateOutputSchema conv ser st =
   foldl (save_entry conv ser) st (captured_entries (toolOutputCache st))"
proof -
  have "foldl (\<lambda>s (serverName, outputs).
              foldl (\<lambda>s' entry. save_output_schema conv ser serverName entry s') s outputs) st0 cache =
        foldl (save_entry conv ser) st0 (captured_entries cache)" for st0 cache
    by (induction cache arbitrary: st0) (auto simp: captured_entries_def inner_loop)
  then show ?thesis by (simp add: updateOutputSchema_def)
qed

lemma fold_takes_inferred:
  "takes_inferred (toolDatabase (foldl (save_entry conv ser) st es)) k
     = takes_inferred (toolDatabase st) k"
proof (induction es arbitrary: st)
  case Nil show ?case by simp
next
  case (Cons p es)
  obtain s e where p: "p = (s, e)" by (cases p)
  have "takes_inferred (toolDatabase (foldl (save_entry conv ser) st (p # es))) k =
        takes_inferred (toolDatabase (save_output_schema conv ser s e st)) k"
    using Cons.IH[of "save_output_schema conv ser s e st"] by (simp add: p save_entry_pair)
  then show ?case by (simp only: save_takes_inferred)
qed

lemma fold_database:
  "toolDatabase (foldl (save_entry conv ser) st es) k \<noteq> toolDatabase st k
   \<Longrightarrow> takes_inferred (toolDatabase st) k"
proof (induction es arbitrary: st)
  case Nil then show ?case by simp
next
  case (Cons p es)
  obtain s e where p: "p = (s, e)" by (cases p)
  let ?st1 = "save_output_schema conv ser s e st"
  show ?case
  proof (cases "toolDatabase ?st1 k = toolDatabase st k")
    case True
    have step: "foldl (save_entry conv ser) st (p # es) = foldl (save_entry conv ser) ?st1 es"
      by (simp add: p save_entry_pair)
    have "toolDatabase (foldl (save_entry conv ser) ?st1 es) k \<noteq> toolDatabase ?st1 k"
      using Cons.prems unfolding step True .
    then have "takes_inferred (toolDatabase ?st1) k" by (rule Cons.IH)
    then show ?thesis by (simp only: save_takes_inferred)
  next
    case False
    then show ?thesis by (rule save_database)
  qed
qed

lemma fold_in_memory:
  "in_memory_schema (SandboxManagerImpl.serversInfo (foldl (save_entry conv ser) st es)) s' t'
      \<noteq> in_memory_schema (SandboxManagerImpl.serversInfo st) s' t'
   \<Longrightarrow> takes_inferred (toolDatabase st) (s', t')"
proof (induction es arbitrary: st)
  case Nil then show ?case by simp
next
  case (Cons p es)
  obtain s e where p: "p = (s, e)" by (cases p)
  let ?st1 = "save_output_schema conv ser s e st"
  show ?case
  proof (cases "in_memory_schema (SandboxManagerImpl.serversInfo ?st1) s' t' = in_memory_schema (SandboxManagerImpl.serversInfo st) s' t'")
    case True
    have step: "foldl (save_entry conv ser) st (p # es) = foldl (save_entry conv ser) ?st1 es"
      by (simp add: p save_entry_pair)
    have "in_memory_schema (SandboxManagerImpl.serversInfo (foldl (save_entry conv ser) ?st1 es)) s' t'
            \<noteq> in_memory_schema (SandboxManagerImpl.serversInfo ?st1) s' t'"
      using Cons.prems unfolding step True .
    then have "takes_inferred (toolDatabase ?st1) (s', t')" by (rule Cons.IH)
    then show ?thesis by (simp only: save_takes_inferred)
  next
    case False
    then show ?thesis by (rule save_in_memory)
  qed
qed

text \<open>
  C1: in a drain after a script run, whatever entries the cache holds, a row of the
  metadata store whose \<^verbatim>\<open>originalOutputSchema\<close> is true is left as it is, with its
  \<^verbatim>\<open>outputSchema\<close> and its \<^verbatim>\<open>originalOutputSchema\<close>. A row that the drain changes, and an
  in-memory tool whose \<^verbatim>\<open>outputSchema\<close> the drain changes, belong to a key whose row existed
  before the drain with \<^verbatim>\<open>originalOutputSchema\<close> false.
\<close>

theorem original_schema_not_overwritten:
  "(toolDatabase st (serverName, toolName) = Some row \<and> originalOutputSchema row \<longrightarrow>
      toolDatabase (updateOutputSchema conv ser st) (serverName, toolName) = Some row) \<and>
   (toolDatabase (updateOutputSchema conv ser st) (serverName, toolName)
        \<noteq> toolDatabase st (serverName, toolName) \<longrightarrow>
      (\<exists>existing. toolDatabase st (serverName, toolName) = Some existing \<and>
                  \<not> originalOutputSchema existing)) \<and>
   (in_memory_schema (SandboxManagerImpl.serversInfo (updateOutputSchema conv ser st)) serverName toolName
        \<noteq> in_memory_schema (SandboxManagerImpl.serversInfo st) serverName toolName \<longrightarrow>
      (\<exists>existing. toolDatabase st (serverName, toolName) = Some existing \<and>
                  \<not> originalOutputSchema existing))"
proof -
  let ?k = "(serverName, toolName)"
  have changed: "toolDatabase (updateOutputSchema conv ser st) ?k \<noteq> toolDatabase st ?k
                 \<Longrightarrow> takes_inferred (toolDatabase st) ?k"
    unfolding updateOutputSchema_entries by (rule fold_database)
  have mirrored: "in_memory_schema (SandboxManagerImpl.serversInfo (updateOutputSchema conv ser st)) serverName toolName
        \<noteq> in_memory_schema (SandboxManagerImpl.serversInfo st) serverName toolName
                 \<Longrightarrow> takes_inferred (toolDatabase st) ?k"
    unfolding updateOutputSchema_entries by (rule fold_in_memory)
  have inferred: "takes_inferred (toolDatabase st) ?k \<Longrightarrow>
     \<exists>existing. toolDatabase st ?k = Some existing \<and> \<not> originalOutputSchema existing"
    by (cases "toolDatabase st ?k") (simp_all add: takes_inferred_def)
  show ?thesis
  proof (intro conjI impI)
    assume a: "toolDatabase st ?k = Some row \<and> originalOutputSchema row"
    show "toolDatabase (updateOutputSchema conv ser st) ?k = Some row"
    proof (rule ccontr)
      assume "toolDatabase (updateOutputSchema conv ser st) ?k \<noteq> Some row"
      then have "takes_inferred (toolDatabase st) ?k" using a changed by simp
      then show False using a by (simp add: takes_inferred_def)
    qed
  next
    assume "toolDatabase (updateOutputSchema conv ser st) ?k \<noteq> toolDatabase st ?k"
    then show "\<exists>existing. toolDatabase st ?k = Some existing \<and> \<not> originalOutputSchema existing"
      using inferred changed by simp
  next
    assume "in_memory_schema (SandboxManagerImpl.serversInfo (updateOutputSchema conv ser st)) serverName toolName
        \<noteq> in_memory_schema (SandboxManagerImpl.serversInfo st) serverName toolName"
    then show "\<exists>existing. toolDatabase st ?k = Some existing \<and> \<not> originalOutputSchema existing"
      using inferred mirrored by simp
  qed
qed

lemma example_drain:
  "toolDatabase (updateOutputSchema (\<lambda>output. Some 7) (\<lambda>schema. ''inferred'') example_sandbox) (''time'', ''now'') =
     Some \<lparr>ToolRow.outputSchema = Some ''inferred'', originalOutputSchema = False\<rparr>"
  by (simp add: updateOutputSchema_def save_output_schema_def Let_def database_getTool_def
      database_updateTool_def example_sandbox_def example_database_def time_info_def weather_info_def
      now_tool_def forecast_tool_def)

lemma example_drain_memory:
  "in_memory_schema (SandboxManagerImpl.serversInfo (updateOutputSchema (\<lambda>output. Some 7) (\<lambda>schema. ''inferred'') example_sandbox)) ''time'' ''now'' =
     Some (Some 7)"
  by (simp add: updateOutputSchema_def save_output_schema_def Let_def database_getTool_def
      database_updateTool_def example_sandbox_def example_database_def time_info_def weather_info_def
      now_tool_def forecast_tool_def in_memory_schema_def)

theorem original_schema_not_overwritten_witness:
  "toolDatabase example_sandbox (''weather'', ''get_forecast'') =
     Some \<lparr>ToolRow.outputSchema = Some ''from the server'', originalOutputSchema = True\<rparr> \<and>
   toolDatabase (updateOutputSchema (\<lambda>output. Some 7) (\<lambda>schema. ''inferred'') example_sandbox)
       (''weather'', ''get_forecast'') =
     Some \<lparr>ToolRow.outputSchema = Some ''from the server'', originalOutputSchema = True\<rparr> \<and>
   toolDatabase (updateOutputSchema (\<lambda>output. Some 7) (\<lambda>schema. ''inferred'') example_sandbox)
       (''time'', ''now'') \<noteq> toolDatabase example_sandbox (''time'', ''now'') \<and>
   in_memory_schema (SandboxManagerImpl.serversInfo
       (updateOutputSchema (\<lambda>output. Some 7) (\<lambda>schema. ''inferred'') example_sandbox)) ''time'' ''now''
     \<noteq> in_memory_schema (SandboxManagerImpl.serversInfo example_sandbox) ''time'' ''now'' \<and>
   (\<exists>existing. toolDatabase example_sandbox (''time'', ''now'') = Some existing \<and>
                \<not> originalOutputSchema existing)"
proof -
  have row: "toolDatabase example_sandbox (''weather'', ''get_forecast'') =
     Some \<lparr>ToolRow.outputSchema = Some ''from the server'', originalOutputSchema = True\<rparr>"
    by (simp add: example_sandbox_def example_database_def)
  have before: "toolDatabase example_sandbox (''time'', ''now'') =
     Some \<lparr>ToolRow.outputSchema = None, originalOutputSchema = False\<rparr>"
    by (simp add: example_sandbox_def example_database_def)
  have mem: "in_memory_schema (SandboxManagerImpl.serversInfo example_sandbox) ''time'' ''now'' = Some (Some 1)"
    by (simp add: example_sandbox_def in_memory_schema_def time_info_def now_tool_def)
  show ?thesis
    using original_schema_not_overwritten
            [of example_sandbox "''weather''" "''get_forecast''"
               "\<lparr>ToolRow.outputSchema = Some ''from the server'', originalOutputSchema = True\<rparr>"
               "\<lambda>output. Some 7" "\<lambda>schema. ''inferred''"]
          original_schema_not_overwritten
            [of example_sandbox "''time''" "''now''" _ "\<lambda>output. Some 7" "\<lambda>schema. ''inferred''"]
          row before mem example_drain example_drain_memory
    by simp
qed


section \<open>Properties of execute\<close>

lemma reseed_lookup:
  "map_of (foldl (\<lambda>cache (serverName, serverInfo). AList.update serverName [] cache) c0 infos) n =
     (if n \<in> fst ` set infos then Some [] else map_of c0 n)"
  by (induction infos arbitrary: c0) (auto simp: update_conv')

lemma clearAndSetToolOutCache_lookup:
  "map_of (toolOutputCache (clearAndSetToolOutCache st)) n =
     (if n \<in> fst ` set (SandboxManagerImpl.serversInfo st) then Some [] else None)"
  by (simp add: clearAndSetToolOutCache_def reseed_lookup)

lemma clearAndSetToolOutCache_rest:
  "SandboxManagerImpl.serversInfo (clearAndSetToolOutCache st) = SandboxManagerImpl.serversInfo st \<and>
   toolDatabase (clearAndSetToolOutCache st) = toolDatabase st"
  by (simp add: clearAndSetToolOutCache_def)

lemma save_keys:
  "fst ` set (SandboxManagerImpl.serversInfo (save_output_schema conv ser s e st)) =
   fst ` set (SandboxManagerImpl.serversInfo st)"
proof -
  from save_output_schema_cases[of conv ser s e st]
  consider "SandboxManagerImpl.serversInfo (save_output_schema conv ser s e st) = SandboxManagerImpl.serversInfo st"
    | serverInfo schema where "map_of (SandboxManagerImpl.serversInfo st) s = Some serverInfo"
        "SandboxManagerImpl.serversInfo (save_output_schema conv ser s e st) =
            AList.update s (serverInfo\<lparr>tools := set_outputSchema (fst e) schema (tools serverInfo)\<rparr>)
              (SandboxManagerImpl.serversInfo st)"
    by auto
  then show ?thesis
  proof cases
    case 1 then show ?thesis by simp
  next
    case 2
    from 2(1) have "s \<in> fst ` set (SandboxManagerImpl.serversInfo st)"
      by (metis map_of_SomeD fst_conv image_eqI)
    then show ?thesis by (auto simp: 2(2) dom_update)
  qed
qed

lemma fold_keys:
  "fst ` set (SandboxManagerImpl.serversInfo (foldl (save_entry conv ser) st es)) =
   fst ` set (SandboxManagerImpl.serversInfo st)"
proof (induction es arbitrary: st)
  case Nil show ?case by simp
next
  case (Cons p es)
  obtain s e where p: "p = (s, e)" by (cases p)
  have "foldl (save_entry conv ser) st (p # es) =
        foldl (save_entry conv ser) (save_output_schema conv ser s e st) es"
    by (simp add: p save_entry_pair)
  then show ?case using Cons.IH[of "save_output_schema conv ser s e st"] by (simp only: save_keys)
qed

text \<open>The state in which the script leaves the sandbox.\<close>

lemma execute_returns:
  assumes "exported_value (vm_run code st) = Inr result" and "await_if_thenable result = Returns v"
  shows "execute vm_run conv ser code st =
           (clearAndSetToolOutCache
              (foldl (save_entry conv ser) (st\<lparr>toolOutputCache := cache_after (vm_run code st)\<rparr>)
                 (captured_entries (cache_after (vm_run code st)))),
            Returns v)"
  using assms by (simp add: execute_def Let_def updateOutputSchema_entries)

lemma execute_throws:
  assumes "(case exported_value (vm_run code st) of Inl e \<Rightarrow> Throws e | Inr result \<Rightarrow> await_if_thenable result) = Throws e"
  shows "execute vm_run conv ser code st =
           (st\<lparr>toolOutputCache := cache_after (vm_run code st),
               SandboxManagerImpl.console := SandboxManagerImpl.console st @ [ErrorExecutingCode e]\<rparr>,
            Throws e)"
  using assms by (simp add: execute_def Let_def)

lemma example_drain_now:
  "toolDatabase (updateOutputSchema example_convert example_serialize example_sandbox) (''time'', ''now'') =
     Some \<lparr>ToolRow.outputSchema = Some ''inferred'', originalOutputSchema = False\<rparr>"
  by (simp add: updateOutputSchema_def save_output_schema_def Let_def database_getTool_def
      database_updateTool_def example_sandbox_def example_database_def time_info_def weather_info_def
      now_tool_def forecast_tool_def example_convert_def example_serialize_def)

text \<open>
  C2 as stated fails: a script that has called both tools and whose promise is then
  rejected makes \<^verbatim>\<open>execute\<close> throw with the two captured outputs still in the cache and
  the row of \<open>time/now\<close> as it was, although a drain of that cache would have written the
  inferred schema to the row.
\<close>

theorem drain_skipped_when_script_fails:
  "snd (execute rejecting_run example_convert example_serialize ''code'' seeded_sandbox) =
     Throws (Error ''boom'') \<and>
   toolOutputCache (fst (execute rejecting_run example_convert example_serialize ''code'' seeded_sandbox)) =
     [(''weather'', [(''get_forecast'', example_response)]), (''time'', [(''now'', example_response)])] \<and>
   toolDatabase (fst (execute rejecting_run example_convert example_serialize ''code'' seeded_sandbox))
       (''time'', ''now'') =
     Some \<lparr>ToolRow.outputSchema = None, originalOutputSchema = False\<rparr> \<and>
   toolDatabase (updateOutputSchema example_convert example_serialize
                   (seeded_sandbox\<lparr>toolOutputCache := toolOutputCache example_sandbox\<rparr>))
       (''time'', ''now'') =
     Some \<lparr>ToolRow.outputSchema = Some ''inferred'', originalOutputSchema = False\<rparr>"
proof -
  have same: "seeded_sandbox\<lparr>toolOutputCache := toolOutputCache example_sandbox\<rparr> = example_sandbox"
    by (simp add: seeded_sandbox_def)
  have run: "execute rejecting_run example_convert example_serialize ''code'' seeded_sandbox =
          (example_sandbox\<lparr>SandboxManagerImpl.console := [ErrorExecutingCode (Error ''boom'')]\<rparr>,
           Throws (Error ''boom''))"
    by (simp add: execute_def Let_def rejecting_run_def seeded_sandbox_def example_sandbox_def)
  show ?thesis
    unfolding run same
    by (simp add: example_drain_now) (simp add: example_sandbox_def example_database_def)
qed

text \<open>
  C2, amended: when the script's exported value is obtained (a value that is not a
  promise, or a promise that is fulfilled), \<^verbatim>\<open>execute\<close> returns it after the drain has
  processed every entry the cache holds, bucket by bucket in order, and after the cache
  has been replaced by one empty bucket for each registered server. When the run fails
  (the script throws or its promise is rejected), \<^verbatim>\<open>execute\<close> logs and rethrows: the
  drain does not run and the cache keeps the captured entries.
\<close>

theorem drain_runs_when_script_returns:
  "(exported_value (vm_run code st) = Inr result \<and> await_if_thenable result = Returns v \<longrightarrow>
      snd (execute vm_run conv ser code st) = Returns v \<and>
      toolDatabase (fst (execute vm_run conv ser code st)) =
        toolDatabase (foldl (save_entry conv ser) (st\<lparr>toolOutputCache := cache_after (vm_run code st)\<rparr>)
                        (captured_entries (cache_after (vm_run code st)))) \<and>
      SandboxManagerImpl.serversInfo (fst (execute vm_run conv ser code st)) =
        SandboxManagerImpl.serversInfo
          (foldl (save_entry conv ser) (st\<lparr>toolOutputCache := cache_after (vm_run code st)\<rparr>)
             (captured_entries (cache_after (vm_run code st)))) \<and>
      (\<forall>n. map_of (toolOutputCache (fst (execute vm_run conv ser code st))) n =
            (if n \<in> fst ` set (SandboxManagerImpl.serversInfo st) then Some [] else None))) \<and>
   ((case exported_value (vm_run code st) of
       Inl e' \<Rightarrow> Throws e' | Inr result \<Rightarrow> await_if_thenable result) = Throws e \<longrightarrow>
      execute vm_run conv ser code st =
        (st\<lparr>toolOutputCache := cache_after (vm_run code st),
            SandboxManagerImpl.console := SandboxManagerImpl.console st @ [ErrorExecutingCode e]\<rparr>,
         Throws e))"
proof (intro conjI impI)
  assume a: "exported_value (vm_run code st) = Inr result \<and> await_if_thenable result = Returns v"
  let ?drained = "foldl (save_entry conv ser) (st\<lparr>toolOutputCache := cache_after (vm_run code st)\<rparr>)
                        (captured_entries (cache_after (vm_run code st)))"
  have ex: "execute vm_run conv ser code st = (clearAndSetToolOutCache ?drained, Returns v)"
    using a
      execute_returns[where vm_run = vm_run and code = code and st = st and result = result and v = v]
    by simp
  show "snd (execute vm_run conv ser code st) = Returns v" by (simp add: ex)
  show "toolDatabase (fst (execute vm_run conv ser code st)) = toolDatabase ?drained"
    by (simp add: ex clearAndSetToolOutCache_rest)
  show "SandboxManagerImpl.serversInfo (fst (execute vm_run conv ser code st)) =
        SandboxManagerImpl.serversInfo ?drained"
    by (simp add: ex clearAndSetToolOutCache_rest)
  have keys: "fst ` set (SandboxManagerImpl.serversInfo ?drained) = fst ` set (SandboxManagerImpl.serversInfo st)"
    by (simp only: fold_keys) simp
  show "\<forall>n. map_of (toolOutputCache (fst (execute vm_run conv ser code st))) n =
            (if n \<in> fst ` set (SandboxManagerImpl.serversInfo st) then Some [] else None)"
    by (simp add: ex clearAndSetToolOutCache_lookup keys)
next
  assume "(case exported_value (vm_run code st) of
       Inl e' \<Rightarrow> Throws e' | Inr result \<Rightarrow> await_if_thenable result) = Throws e"
  then show "execute vm_run conv ser code st =
        (st\<lparr>toolOutputCache := cache_after (vm_run code st),
            SandboxManagerImpl.console := SandboxManagerImpl.console st @ [ErrorExecutingCode e]\<rparr>,
         Throws e)"
    using execute_throws[where vm_run = vm_run and code = code and st = st and e = e] by simp
qed

theorem drain_runs_when_script_returns_witness:
  "exported_value (fulfilling_run ''code'' seeded_sandbox) = Inr (Thenable (Fulfilled 42)) \<and>
   await_if_thenable (Thenable (Fulfilled (42::nat))) = Returns 42 \<and>
   snd (execute fulfilling_run example_convert example_serialize ''code'' seeded_sandbox) = Returns 42 \<and>
   toolDatabase (fst (execute fulfilling_run example_convert example_serialize ''code'' seeded_sandbox))
       (''time'', ''now'') =
     Some \<lparr>ToolRow.outputSchema = Some ''inferred'', originalOutputSchema = False\<rparr> \<and>
   map_of (toolOutputCache (fst (execute fulfilling_run example_convert example_serialize ''code''
                                   seeded_sandbox))) ''time'' = Some [] \<and>
   map_of (toolOutputCache (fst (execute fulfilling_run example_convert example_serialize ''code''
                                   seeded_sandbox))) ''files'' = None \<and>
   execute rejecting_run example_convert example_serialize ''code'' seeded_sandbox =
     (seeded_sandbox\<lparr>toolOutputCache := toolOutputCache example_sandbox,
                     SandboxManagerImpl.console := [ErrorExecutingCode (Error ''boom'')]\<rparr>,
      Throws (Error ''boom''))"
proof -
  have same: "seeded_sandbox\<lparr>toolOutputCache := toolOutputCache example_sandbox\<rparr> = example_sandbox"
    by (simp add: seeded_sandbox_def)
  have drained: "toolDatabase (foldl (save_entry example_convert example_serialize) example_sandbox
                    (captured_entries (toolOutputCache example_sandbox))) (''time'', ''now'') =
     Some \<lparr>ToolRow.outputSchema = Some ''inferred'', originalOutputSchema = False\<rparr>"
    using example_drain_now by (simp add: updateOutputSchema_entries)
  have keys: "fst ` set (SandboxManagerImpl.serversInfo seeded_sandbox) = {''weather'', ''time''}"
    by (auto simp: seeded_sandbox_def example_sandbox_def)
  have empty: "SandboxManagerImpl.console seeded_sandbox = []"
    by (simp add: seeded_sandbox_def example_sandbox_def)
  show ?thesis
    using drain_runs_when_script_returns
            [of fulfilling_run "''code''" seeded_sandbox "Thenable (Fulfilled 42)" 42
                example_convert example_serialize]
          drain_runs_when_script_returns
            [of rejecting_run "''code''" seeded_sandbox _ _ example_convert example_serialize
                "Error ''boom''"]
    by (simp add: fulfilling_run_def rejecting_run_def same drained keys empty)
qed

text \<open>
  C8: when the value the script exported is a promise, \<^verbatim>\<open>execute\<close> and
  \<^verbatim>\<open>runCodeInSandbox\<close> await it: they return what it is fulfilled with, throw what it is
  rejected with, and stay pending while it does. When the value is not a promise, they
  return it as it is, whatever it is.
\<close>

theorem promise_awaited_other_value_returned:
  "(exported_value (vm_run code st) = Inr (Thenable (Fulfilled v)) \<longrightarrow>
      snd (execute vm_run conv ser code st) = Returns v) \<and>
   (exported_value (vm_run code st) = Inr (Thenable (Rejected e)) \<longrightarrow>
      snd (execute vm_run conv ser code st) = Throws e) \<and>
   (exported_value (vm_run code st) = Inr (Thenable NeverSettles) \<longrightarrow>
      snd (execute vm_run conv ser code st) = Pending) \<and>
   (exported_value (vm_run code st) = Inr (NotThenable v) \<longrightarrow>
      snd (execute vm_run conv ser code st) = Returns v) \<and>
   (legacy_run code = Inr (Thenable (Fulfilled v)) \<longrightarrow>
      snd (runCodeInSandbox legacy_run code logs) = Returns v) \<and>
   (legacy_run code = Inr (Thenable (Rejected e)) \<longrightarrow>
      snd (runCodeInSandbox legacy_run code logs) = Throws e) \<and>
   (legacy_run code = Inr (Thenable NeverSettles) \<longrightarrow>
      snd (runCodeInSandbox legacy_run code logs) = Pending) \<and>
   (legacy_run code = Inr (NotThenable v) \<longrightarrow>
      snd (runCodeInSandbox legacy_run code logs) = Returns v)"
  by (simp add: execute_def runCodeInSandbox_def Let_def)

theorem promise_awaited_other_value_returned_witness:
  "exported_value (fulfilling_run ''code'' seeded_sandbox) = Inr (Thenable (Fulfilled 42)) \<and>
   snd (execute fulfilling_run example_convert example_serialize ''code'' seeded_sandbox) = Returns 42 \<and>
   exported_value (plain_run ''code'' seeded_sandbox) = Inr (NotThenable 42) \<and>
   snd (execute plain_run example_convert example_serialize ''code'' seeded_sandbox) = Returns 42 \<and>
   exported_value (rejecting_run ''code'' seeded_sandbox) = Inr (Thenable (Rejected (Error ''boom''))) \<and>
   snd (execute rejecting_run example_convert example_serialize ''code'' seeded_sandbox) =
     Throws (Error ''boom'') \<and>
   snd (runCodeInSandbox legacy_fulfilling_run ''code'' []) = Returns 42 \<and>
   snd (runCodeInSandbox legacy_plain_run ''code'' []) = Returns 42"
  using promise_awaited_other_value_returned
          [of fulfilling_run "''code''" seeded_sandbox 42 example_convert example_serialize _
              legacy_fulfilling_run "[]"]
        promise_awaited_other_value_returned
          [of plain_run "''code''" seeded_sandbox 42 example_convert example_serialize _
              legacy_plain_run "[]"]
        promise_awaited_other_value_returned
          [of rejecting_run "''code''" seeded_sandbox _ example_convert example_serialize
              "Error ''boom''"]
  by (simp add: fulfilling_run_def plain_run_def rejecting_run_def legacy_fulfilling_run_def
      legacy_plain_run_def)


section \<open>Properties of the stubs and of the handlers\<close>

text \<open>
  C7 as stated fails for the stub that \<^verbatim>\<open>SandboxManager.generateToolFile\<close> writes: called
  for \<open>time/now\<close>, whose downstream response has no \<^verbatim>\<open>content\<close>, it returns that response
  itself, with \<^verbatim>\<open>content\<close> still missing and no \<^verbatim>\<open>_meta\<close>, where the stub of
  \<^verbatim>\<open>SandboxManagerImpl\<close> returns the envelope with \<^verbatim>\<open>content\<close> \<open>[]\<close>. And the claim's
  \<open>every server and tool\<close> goes beyond what the template can carry: for the title
  \<open>get-forecast\<close> the file declares \<^verbatim>\<open>async function get-forecast(args)\<close>, and a double
  quote in the wire name ends the string literal it is spliced into.
\<close>

theorem legacy_stub_returns_raw_response:
  "legacy_tool_stub ''time'' now_tool (SandboxManagerImpl.serversInfo example_sandbox) 0 =
     Some (Inr \<lparr>CallToolResult.content = None, CallToolResult.isError = Some True\<rparr>) \<and>
   map_option snd (tool_stub ''time'' now_tool example_sandbox 0) =
     Some (Inr \<lparr>Envelope.content = [], Envelope.isError = True,
                meta = \<lparr>meta_serverName = ''time'', meta_toolName = ''now''\<rparr>\<rparr>) \<and>
   generateToolFile_lines ''weather'' hyphen_tool ! 4 =
     ''      async function get-forecast(args) {'' \<and>
   generateToolFile_lines ''weather'' quote_tool ! 15 =
     ''            name: '' @ [CHR 0x22] @ ''get'' @ [CHR 0x22] @ ''forecast'' @ [CHR 0x22] @ '',''"
  by (simp add: legacy_tool_stub_def tool_stub_def example_sandbox_def time_info_def
      time_client_def now_tool_def or_array_def or_bool_def plain_splices_def
      usable_function_name_def identifier_start_def identifier_part_def unusable_names_def
      plain_in_string_literal_def plain_in_template_literal_def less_eq_char_def
      generateToolFile_lines_def hyphen_tool_def quote_tool_def forecast_tool_def
      double_quoted_def)

text \<open>
  C7, amended: for every server and tool whose title can stand as the name of a
  JavaScript function in the stub file (an identifier of ASCII letters, digits, \<open>_\<close> and
  \<open>$\<close> that is not a reserved word and not a name the file binds or uses) and whose server
  name and wire name are read as they are inside the literals they are spliced into (no
  double quote, backslash or line break, and in the server name no backtick and no \<open>$\<close>),
  the stub that \<^verbatim>\<open>SandboxManagerImpl\<close> generates, called with arguments for a registered
  server with a client whose \<^verbatim>\<open>callTool\<close> resolves to \<open>rawResponse\<close>, returns
  \<^verbatim>\<open>{content: rawResponse.content ?? [], isError: rawResponse.isError ?? false, _meta:
  {serverName, toolName}}\<close> with \<^verbatim>\<open>toolName\<close> the wire name of the tool, whatever its
  title; the stub that the earlier \<^verbatim>\<open>SandboxManager\<close> generates returns \<open>rawResponse\<close>
  itself. What the stub file does for other titles and names is left open here.
\<close>

theorem stub_returns_envelope:
  assumes "usable_function_name (title tool)"
    and "plain_in_string_literal server \<and> plain_in_template_literal server"
    and "plain_in_string_literal (Tool.name tool)"
  shows
  "(map_of (SandboxManagerImpl.serversInfo st) server = Some serverInfo \<and>
    client serverInfo = Some c \<and>
    callTool c (Tool.name tool) args = Inr rawResponse \<longrightarrow>
      map_option snd (tool_stub server tool st args) =
        Some (Inr \<lparr>Envelope.content = nullish_coalesce (CallToolResult.content rawResponse) [],
                   Envelope.isError = nullish_coalesce (CallToolResult.isError rawResponse) False,
                   meta = \<lparr>meta_serverName = server, meta_toolName = Tool.name tool\<rparr>\<rparr>)) \<and>
   (map_of infos server = Some serverInfo \<and>
    client serverInfo = Some c \<and>
    callTool c (Tool.name tool) args = Inr rawResponse \<longrightarrow>
      legacy_tool_stub server tool infos args = Some (Inr rawResponse))"
  using assms
  by (auto simp: tool_stub_def legacy_tool_stub_def plain_splices_def or_array_def or_bool_def
      nullish_coalesce_def split: option.splits)

theorem stub_returns_envelope_witness:
  "usable_function_name (title (forecast_tool\<lparr>title := ''forecast_2''\<rparr>)) \<and>
   plain_in_string_literal ''weather'' \<and> plain_in_template_literal ''weather'' \<and>
   plain_in_string_literal (Tool.name (forecast_tool\<lparr>title := ''forecast_2''\<rparr>)) \<and>
   map_of (SandboxManagerImpl.serversInfo example_sandbox) ''weather'' = Some weather_info \<and>
   client weather_info = Some weather_client \<and>
   callTool weather_client (Tool.name (forecast_tool\<lparr>title := ''forecast_2''\<rparr>)) 3 =
     Inr \<lparr>CallToolResult.content = Some [3], CallToolResult.isError = None\<rparr> \<and>
   map_option snd
       (tool_stub ''weather'' (forecast_tool\<lparr>title := ''forecast_2''\<rparr>) example_sandbox 3) =
     Some (Inr \<lparr>Envelope.content = [3], Envelope.isError = False,
                meta = \<lparr>meta_serverName = ''weather'', meta_toolName = ''get_forecast''\<rparr>\<rparr>) \<and>
   legacy_tool_stub ''weather'' (forecast_tool\<lparr>title := ''forecast_2''\<rparr>)
       (SandboxManagerImpl.serversInfo example_sandbox) 3 =
     Some (Inr \<lparr>CallToolResult.content = Some [3], CallToolResult.isError = None\<rparr>)"
proof -
  have t: "usable_function_name (title (forecast_tool\<lparr>title := ''forecast_2''\<rparr>))"
    by (simp add: usable_function_name_def identifier_start_def identifier_part_def
        unusable_names_def less_eq_char_def)
  have s: "plain_in_string_literal ''weather'' \<and> plain_in_template_literal ''weather''"
    by (simp add: plain_in_string_literal_def plain_in_template_literal_def)
  have w: "plain_in_string_literal (Tool.name (forecast_tool\<lparr>title := ''forecast_2''\<rparr>))"
    by (simp add: plain_in_string_literal_def forecast_tool_def)
  show ?thesis
    using stub_returns_envelope
          [OF t s w, of example_sandbox weather_info weather_client 3
              "\<lparr>CallToolResult.content = Some [3], CallToolResult.isError = None\<rparr>"
              "SandboxManagerImpl.serversInfo example_sandbox"] t s w
    by (simp add: example_sandbox_def weather_info_def weather_client_def forecast_tool_def
        nullish_coalesce_def)
qed







section \<open>Properties of the parser\<close>

lemma overview_lines_present:
  "\<forall>p \<in> set infos. client (snd p) \<noteq> None \<Longrightarrow>
   overview_lines infos acc = Inr (acc @ concat (map lines_of_server infos))"
proof (induction infos arbitrary: acc)
  case Nil show ?case by simp
next
  case (Cons p infos)
  obtain n si where p: "p = (n, si)" by (cases p)
  obtain c where c: "client si = Some c" using Cons.prems by (auto simp: p)
  have rest: "\<forall>q \<in> set infos. client (snd q) \<noteq> None" using Cons.prems by simp
  show ?case
    by (simp add: p c Cons.IH[OF rest] lines_of_server_def)
qed

lemma getServersOverview_present:
  "\<forall>p \<in> set infos. client (snd p) \<noteq> None \<Longrightarrow>
   getServersOverview infos = Inr (join ''\<newline>'' (sort (concat (map lines_of_server infos))))"
  by (simp add: getServersOverview_def overview_lines_present)

lemma sort_mset_cong:
  fixes xs ys :: "string list"
  shows "mset xs = mset ys \<Longrightarrow> sort xs = sort ys"
  by (metis properties_for_sort sorted_sort mset_sort)

lemma mset_concat_map_cong:
  "mset xs = mset ys \<Longrightarrow> mset (concat (map f xs)) = mset (concat (map f ys))"
proof -
  assume a: "mset xs = mset ys"
  have "mset (concat (map f zs)) = sum_mset (image_mset (mset \<circ> f) (mset zs))" for zs :: "'a list"
    by (induction zs) simp_all
  then show ?thesis using a by simp
qed

lemma overview_same_lines:
  assumes "\<forall>p \<in> set infos. client (snd p) \<noteq> None"
    and "\<forall>p \<in> set infos'. client (snd p) \<noteq> None"
    and "mset (concat (map lines_of_server infos')) = mset (concat (map lines_of_server infos))"
  shows "getServersOverview infos' = getServersOverview infos"
proof -
  have "sort (concat (map lines_of_server infos')) = sort (concat (map lines_of_server infos))"
    using assms(3) by (rule sort_mset_cong)
  then show ?thesis
    by (simp add: getServersOverview_present[OF assms(1)] getServersOverview_present[OF assms(2)])
qed

lemma overview_same_servers:
  assumes "\<forall>p \<in> set infos. client (snd p) \<noteq> None" and "mset infos' = mset infos"
  shows "getServersOverview infos' = getServersOverview infos"
proof -
  have "set infos' = set infos" using assms(2) by (rule mset_eq_setD)
  then have present': "\<forall>p \<in> set infos'. client (snd p) \<noteq> None" using assms(1) by simp
  show ?thesis
    by (rule overview_same_lines[OF assms(1) present' mset_concat_map_cong[OF assms(2)]])
qed

lemma sorted_shuffle_exists:
  fixes xs ys :: "('a :: linorder) list"
  shows "sorted xs \<Longrightarrow> sorted ys \<Longrightarrow> \<exists>zs \<in> shuffles xs ys. sorted zs"
proof (induction xs ys rule: shuffles.induct)
  case (1 ys) then show ?case by simp
next
  case (2 xs) then show ?case by simp
next
  case (3 x xs y ys)
  show ?case
  proof (cases "x \<le> y")
    case True
    from 3 obtain zs where zs: "zs \<in> shuffles xs (y # ys)" "sorted zs" by auto
    have "set zs = set xs \<union> set (y # ys)" using zs(1) by (rule set_shuffles)
    then have "\<forall>z \<in> set zs. x \<le> z" using 3(3,4) True by auto
    then have "sorted (x # zs)" using zs(2) by simp
    moreover have "x # zs \<in> shuffles (x # xs) (y # ys)"
      using zs(1) by (rule Cons_in_shuffles_leftI)
    ultimately show ?thesis by blast
  next
    case False
    from 3 obtain zs where zs: "zs \<in> shuffles (x # xs) ys" "sorted zs" by auto
    have "set zs = set (x # xs) \<union> set ys" using zs(1) by (rule set_shuffles)
    then have "\<forall>z \<in> set zs. y \<le> z" using 3(3,4) False by auto
    then have "sorted (y # zs)" using zs(2) by simp
    moreover have "y # zs \<in> shuffles (x # xs) (y # ys)"
      using zs(1) by (rule Cons_in_shuffles_rightI)
    ultimately show ?thesis by blast
  qed
qed

lemma sort_append_in_shuffles:
  fixes xs ys :: "('a :: linorder) list"
  shows "sort (xs @ ys) \<in> shuffles (sort xs) (sort ys)"
proof -
  obtain zs where zs: "zs \<in> shuffles (sort xs) (sort ys)" "sorted zs"
    using sorted_shuffle_exists[of "sort xs" "sort ys"] by auto
  have "mset zs = mset (xs @ ys)" using mset_shuffles[OF zs(1)] by simp
  then have "sort (xs @ ys) = zs" using zs(2) by (metis properties_for_sort)
  then show ?thesis using zs(1) by simp
qed

lemma overview_lines_split:
  "mset (concat (map lines_of_server infos)) =
     mset (concat (map (\<lambda>(server, info).
              case client info of
                None \<Rightarrow> []
              | Some c \<Rightarrow>
                  (case getInstructions c of
                     None \<Rightarrow> []
                   | Some instructions \<Rightarrow>
                       if instructions = [] then []
                       else [''# '' @ server @ '' mcp server nstructions: '' @ instructions])) infos)
           @ concat (map (\<lambda>(server, info). map (\<lambda>t. server @ ''/'' @ title t) (tools info)) infos))"
  if "\<forall>p \<in> set infos. client (snd p) \<noteq> None"
  using that
proof (induction infos)
  case Nil show ?case by simp
next
  case (Cons p infos)
  obtain server info where p: "p = (server, info)" by (cases p)
  obtain c where c: "client info = Some c" using Cons.prems by (auto simp: p)
  have rest: "\<forall>q \<in> set infos. client (snd q) \<noteq> None" using Cons.prems by simp
  have head: "mset (lines_of_server (server, info)) =
      mset (case getInstructions c of
              None \<Rightarrow> []
            | Some instructions \<Rightarrow>
                if instructions = [] then []
                else [''# '' @ server @ '' mcp server nstructions: '' @ instructions])
      + mset (map (\<lambda>t. server @ ''/'' @ title t) (tools info))"
    by (simp add: lines_of_server_def c instructions_header_def tool_line_def[abs_def]
        split: option.splits)
  show ?case
    using Cons.IH[OF rest] head by (simp add: p c)
qed

text \<open>
  C4 as stated fails: for a registry with \<open>weather\<close> (instructions \<open>Forecasts\<close>) and
  \<open>time\<close> (no instructions) the code returns three lines, the header of \<open>weather\<close>
  first and then the tool lines of both servers, with no header for \<open>time\<close> and no
  hint; the document the claim describes begins with the block of \<open>time\<close> and ends with
  the hint.
\<close>

theorem overview_is_not_grouped_by_server:
  "getServersOverview two_servers =
     Inr ''# weather mcp server nstructions: Forecasts\<newline>time/now\<newline>weather/get_forecast'' \<and>
   specified_servers_overview two_servers =
     ''# time mcp server instructions: \<newline>time/now\<newline># weather mcp server instructions: Forecasts\<newline>weather/get_forecast\<newline>''
       @ overview_hint \<and>
   getServersOverview two_servers \<noteq> Inr (specified_servers_overview two_servers)"
proof -
  have code: "getServersOverview two_servers =
     Inr ''# weather mcp server nstructions: Forecasts\<newline>time/now\<newline>weather/get_forecast''"
    by (simp add: getServersOverview_def two_servers_def weather_info_def time_info_def
      weather_client_def time_client_def instructions_header_def tool_line_def forecast_tool_def
      now_tool_def less_eq_char_def)
  have spec: "specified_servers_overview two_servers =
     ''# time mcp server instructions: \<newline>time/now\<newline># weather mcp server instructions: Forecasts\<newline>weather/get_forecast\<newline>''
       @ overview_hint"
    by (simp add: specified_servers_overview_def specified_server_block_def two_servers_def
      weather_info_def time_info_def weather_client_def time_client_def tool_line_def
      forecast_tool_def now_tool_def less_eq_char_def)
  show ?thesis unfolding code spec by simp
qed

text \<open>
  C4, amended: for every registered-server map whose servers all have a client,
  \<^verbatim>\<open>getServersOverview\<close> returns a deterministic text document, the same for any order of
  the servers in the map. Its lines, joined by newlines, are header lines and tool lines
  and nothing else: one header line for each server that has non-empty instructions,
  made of \<open>#\<close>, the server name, a fixed wording and the instructions, and no header line
  for a server without instructions; and for each tool of each server the line
  \<^verbatim>\<open><server>/<title>\<close>. The tool lines stand in sorted order, and so do the header lines.
  Where the header lines stand among the tool lines, and the wording of a header, are
  left open here.
\<close>

theorem overview_lists_headers_and_tool_lines:
  "\<exists>wording. \<forall>infos :: 'j ServerInfo js_map.
     (\<forall>p \<in> set infos. client (snd p) \<noteq> None) \<longrightarrow>
       (\<exists>headers tool_lines ls.
          getServersOverview infos = Inr (join ''\<newline>'' ls) \<and>
          ls \<in> shuffles headers tool_lines \<and>
          sorted headers \<and> sorted tool_lines \<and>
          mset headers =
            mset (concat (map (\<lambda>(server, info).
              case client info of
                None \<Rightarrow> []
              | Some c \<Rightarrow>
                  (case getInstructions c of
                     None \<Rightarrow> []
                   | Some instructions \<Rightarrow>
                       if instructions = [] then []
                       else [''# '' @ server @ wording @ instructions])) infos)) \<and>
          mset tool_lines =
            mset (concat (map (\<lambda>(server, info).
              map (\<lambda>t. server @ ''/'' @ title t) (tools info)) infos))) \<and>
       (\<forall>infos'. mset infos' = mset infos \<longrightarrow>
          getServersOverview infos' = getServersOverview infos)"
proof (intro exI[of _ "'' mcp server nstructions: ''"] allI impI conjI)
  fix infos :: "'j ServerInfo js_map"
  assume present: "\<forall>p \<in> set infos. client (snd p) \<noteq> None"
  define hs where "hs = concat (map (\<lambda>(server, info).
              case client info of
                None \<Rightarrow> []
              | Some c \<Rightarrow>
                  (case getInstructions c of
                     None \<Rightarrow> []
                   | Some instructions \<Rightarrow>
                       if instructions = [] then []
                       else [''# '' @ server @ '' mcp server nstructions: '' @ instructions])) infos)"
  define ts where "ts = concat (map (\<lambda>(server, info).
              map (\<lambda>t. server @ ''/'' @ title t) (tools info)) infos)"
  have "mset (concat (map lines_of_server infos)) = mset (hs @ ts)"
    unfolding hs_def ts_def by (rule overview_lines_split[OF present])
  then have "sort (concat (map lines_of_server infos)) = sort (hs @ ts)"
    by (rule sort_mset_cong)
  then have out: "getServersOverview infos = Inr (join ''\<newline>'' (sort (hs @ ts)))"
    by (simp add: getServersOverview_present[OF present])
  have "getServersOverview infos = Inr (join ''\<newline>'' (sort (hs @ ts))) \<and>
        sort (hs @ ts) \<in> shuffles (sort hs) (sort ts) \<and> sorted (sort hs) \<and> sorted (sort ts) \<and>
        mset (sort hs) = mset hs \<and> mset (sort ts) = mset ts"
    using out by (simp add: sort_append_in_shuffles)
  then show "\<exists>headers tool_lines ls.
          getServersOverview infos = Inr (join ''\<newline>'' ls) \<and>
          ls \<in> shuffles headers tool_lines \<and>
          sorted headers \<and> sorted tool_lines \<and>
          mset headers =
            mset (concat (map (\<lambda>(server, info).
              case client info of
                None \<Rightarrow> []
              | Some c \<Rightarrow>
                  (case getInstructions c of
                     None \<Rightarrow> []
                   | Some instructions \<Rightarrow>
                       if instructions = [] then []
                       else [''# '' @ server @ '' mcp server nstructions: '' @ instructions])) infos)) \<and>
          mset tool_lines =
            mset (concat (map (\<lambda>(server, info).
              map (\<lambda>t. server @ ''/'' @ title t) (tools info)) infos))"
    unfolding hs_def[symmetric] ts_def[symmetric] by blast
next
  fix infos infos' :: "'j ServerInfo js_map"
  assume "\<forall>p \<in> set infos. client (snd p) \<noteq> None" and "mset infos' = mset infos"
  then show "getServersOverview infos' = getServersOverview infos"
    by (rule overview_same_servers)
qed


theorem overview_lists_headers_and_tool_lines_witness:
  "client weather_info = Some weather_client \<and> client time_info = Some time_client \<and>
   mset two_servers_swapped = mset two_servers \<and>
   getServersOverview two_servers_swapped = getServersOverview two_servers \<and>
   (\<exists>wording headers tool_lines ls.
      getServersOverview two_servers = Inr (join ''\<newline>'' ls) \<and>
      ls \<in> shuffles headers tool_lines \<and> sorted headers \<and> sorted tool_lines \<and>
      mset headers = {#''# weather'' @ wording @ ''Forecasts''#} \<and>
      mset tool_lines = {#''weather/get_forecast'', ''time/now''#})"
proof -
  have present: "\<forall>p \<in> set two_servers. client (snd p) \<noteq> None"
    by (simp add: two_servers_def weather_info_def time_info_def)
  have perm: "mset two_servers_swapped = mset two_servers"
    by (simp add: two_servers_def two_servers_swapped_def)
  from overview_lists_headers_and_tool_lines [where ?'j = nat]
  obtain wording where w: "\<And>infos :: nat ServerInfo js_map.
     (\<forall>p \<in> set infos. client (snd p) \<noteq> None) \<Longrightarrow>
       (\<exists>headers tool_lines ls.
          getServersOverview infos = Inr (join ''\<newline>'' ls) \<and>
          ls \<in> shuffles headers tool_lines \<and>
          sorted headers \<and> sorted tool_lines \<and>
          mset headers =
            mset (concat (map (\<lambda>(server, info).
              case client info of
                None \<Rightarrow> []
              | Some c \<Rightarrow>
                  (case getInstructions c of
                     None \<Rightarrow> []
                   | Some instructions \<Rightarrow>
                       if instructions = [] then []
                       else [''# '' @ server @ wording @ instructions])) infos)) \<and>
          mset tool_lines =
            mset (concat (map (\<lambda>(server, info).
              map (\<lambda>t. server @ ''/'' @ title t) (tools info)) infos))) \<and>
       (\<forall>infos'. mset infos' = mset infos \<longrightarrow>
          getServersOverview infos' = getServersOverview infos)"
    by blast
  from w [OF present] perm
  have swapped: "getServersOverview two_servers_swapped = getServersOverview two_servers"
    by blast
  from w [OF present]
  obtain headers tool_lines ls where doc:
    "getServersOverview two_servers = Inr (join ''\<newline>'' ls)"
    "ls \<in> shuffles headers tool_lines" "sorted headers" "sorted tool_lines"
    "mset headers =
            mset (concat (map (\<lambda>(server, info).
              case client info of
                None \<Rightarrow> []
              | Some c \<Rightarrow>
                  (case getInstructions c of
                     None \<Rightarrow> []
                   | Some instructions \<Rightarrow>
                       if instructions = [] then []
                       else [''# '' @ server @ wording @ instructions])) two_servers))"
    "mset tool_lines =
            mset (concat (map (\<lambda>(server, info).
              map (\<lambda>t. server @ ''/'' @ title t) (tools info)) two_servers))"
    by blast
  have h: "mset headers = {#''# weather'' @ wording @ ''Forecasts''#}"
    using doc(5)
    by (simp add: two_servers_def weather_info_def time_info_def weather_client_def
        time_client_def)
  have t: "mset tool_lines = {#''weather/get_forecast'', ''time/now''#}"
    using doc(6)
    by (simp add: two_servers_def weather_info_def time_info_def forecast_tool_def now_tool_def)
  have "\<exists>wording headers tool_lines ls.
      getServersOverview two_servers = Inr (join ''\<newline>'' ls) \<and>
      ls \<in> shuffles headers tool_lines \<and> sorted headers \<and> sorted tool_lines \<and>
      mset headers = {#''# weather'' @ wording @ ''Forecasts''#} \<and>
      mset tool_lines = {#''weather/get_forecast'', ''time/now''#}"
    using doc(1-4) h t by blast
  then show ?thesis
    using swapped perm by (simp add: weather_info_def time_info_def)
qed


lemma loop_step_ok:
  "\<not> fails_lookup infos p \<Longrightarrow>
   getToolsOverview_loop infos (p # rest) w acc =
   getToolsOverview_loop infos rest (w @ path_warnings infos p) (acc @ path_elements infos p)"
  by (auto simp: fails_lookup_def malformed_def server_part_def tool_part_def path_warnings_def
      path_elements_def Let_def split: option.splits)

lemma loop_step_malformed:
  "malformed p \<Longrightarrow> getToolsOverview_loop infos (p # rest) w acc = (w, Inl (invalid_path_error p))"
  by (simp add: malformed_def invalid_path_error_def Let_def)

lemma loop_step_unknown_server:
  "\<not> malformed p \<Longrightarrow> map_of infos (server_part p) = None \<Longrightarrow>
   getToolsOverview_loop infos (p # rest) w acc = (w, Inl (server_not_found_error (server_part p)))"
  by (simp add: malformed_def server_part_def server_not_found_error_def Let_def)

lemma loop_prefix_ok:
  "\<forall>p \<in> set pre. \<not> fails_lookup infos p \<Longrightarrow>
   getToolsOverview_loop infos (pre @ rest) w acc =
   getToolsOverview_loop infos rest (w @ concat (map (path_warnings infos) pre))
     (acc @ concat (map (path_elements infos) pre))"
proof (induction pre arbitrary: w acc)
  case Nil show ?case by simp
next
  case (Cons p pre)
  have p: "\<not> fails_lookup infos p" and rest: "\<forall>q \<in> set pre. \<not> fails_lookup infos q"
    using Cons.prems by simp_all
  show ?case
    using loop_step_ok[OF p, of "pre @ rest" w acc] Cons.IH[OF rest]
    by simp
qed

lemma getToolsOverview_all_ok:
  assumes "\<forall>p \<in> set toolPaths. \<not> fails_lookup infos p"
  shows "getToolsOverview stringify infos toolPaths =
           (concat (map (path_warnings infos) toolPaths),
            Inr (stringify (concat (map (path_elements infos) toolPaths))))"
  using loop_prefix_ok[OF assms, of "[]" "[]" "[]"]
  by (simp add: getToolsOverview_def)

lemma getToolsOverview_first_failure:
  assumes "\<forall>p \<in> set pre. \<not> fails_lookup infos p" and "fails_lookup infos p"
  shows "getToolsOverview stringify infos (pre @ p # post) =
           (concat (map (path_warnings infos) pre),
            Inl (if malformed p then invalid_path_error p
                 else server_not_found_error (server_part p)))"
proof -
  let ?w = "concat (map (path_warnings infos) pre)"
  have reach: "getToolsOverview_loop infos (pre @ p # post) [] [] =
        getToolsOverview_loop infos (p # post) ?w (concat (map (path_elements infos) pre))"
    using loop_prefix_ok[OF assms(1), of "p # post" "[]" "[]"] by (simp del: getToolsOverview_loop.simps)
  have "getToolsOverview_loop infos (p # post) ?w (concat (map (path_elements infos) pre)) =
          (?w, Inl (if malformed p then invalid_path_error p
                    else server_not_found_error (server_part p)))"
  proof (cases "malformed p")
    case True
    then show ?thesis by (simp del: getToolsOverview_loop.simps add: loop_step_malformed)
  next
    case False
    then have "map_of infos (server_part p) = None" using assms(2) by (simp add: fails_lookup_def)
    then show ?thesis
      using False by (simp del: getToolsOverview_loop.simps add: loop_step_unknown_server)
  qed
  then show ?thesis
    by (simp del: getToolsOverview_loop.simps add: getToolsOverview_def reach)
qed

lemma getToolsOverview_fails_iff:
  "(\<exists>e. snd (getToolsOverview stringify infos toolPaths) = Inl e) \<longleftrightarrow>
   (\<exists>p \<in> set toolPaths. fails_lookup infos p)"
proof
  assume "\<exists>e. snd (getToolsOverview stringify infos toolPaths) = Inl e"
  then obtain e where e: "snd (getToolsOverview stringify infos toolPaths) = Inl e" by blast
  show "\<exists>p \<in> set toolPaths. fails_lookup infos p"
  proof (rule ccontr)
    assume "\<not> (\<exists>p \<in> set toolPaths. fails_lookup infos p)"
    then have "\<forall>p \<in> set toolPaths. \<not> fails_lookup infos p" by simp
    from getToolsOverview_all_ok[OF this, of stringify] e show False by simp
  qed
next
  assume "\<exists>p \<in> set toolPaths. fails_lookup infos p"
  then obtain pre p post where split: "toolPaths = pre @ p # post"
    and p: "fails_lookup infos p" and pre: "\<forall>q \<in> set pre. \<not> fails_lookup infos q"
    using split_list_first_prop[of toolPaths "fails_lookup infos"] by blast
  show "\<exists>e. snd (getToolsOverview stringify infos toolPaths) = Inl e"
    using getToolsOverview_first_failure[OF pre p, of stringify post] by (simp add: split)
qed

text \<open>
  C5 as stated fails: in \<open>[files/read, weather]\<close> the element \<open>weather\<close> does not split
  into two parts, yet the call fails with the error of the element before it, whose
  server is not registered, and that error does not name \<open>weather\<close>.
\<close>

theorem first_failing_path_decides_error:
  "malformed ''weather'' \<and>
   snd (getToolsOverview example_stringify_tools [(''weather'', weather_info)]
          [''files/read'', ''weather'']) =
     Inl (Error ''Error: Server 'files' not found'') \<and>
   snd (getToolsOverview example_stringify_tools [(''weather'', weather_info)]
          [''files/read'', ''weather'']) \<noteq> Inl (invalid_path_error ''weather'')"
  by (simp add: malformed_def getToolsOverview_def invalid_path_error_def quoted_def)

text \<open>
  C5, amended: for every \<^verbatim>\<open>toolPaths\<close> array, the call fails exactly when some element
  does not split into exactly two parts or names a server that is not in the registry,
  and the error is that of the first such element: a structured error naming the path
  when that element is malformed, a server-not-found error naming the server otherwise.
  When no element fails, an element that names a known server and an unknown tool title
  is skipped with a warning, the other elements are still processed, and the return
  value is the JSON array of the tools found, in the order of their paths.
\<close>

theorem tool_paths_fail_at_first_failure:
  "((\<forall>q \<in> set pre. \<not> fails_lookup infos q) \<and> malformed p \<longrightarrow>
      snd (getToolsOverview stringify infos (pre @ p # post)) = Inl (invalid_path_error p)) \<and>
   ((\<forall>q \<in> set pre. \<not> fails_lookup infos q) \<and> \<not> malformed p \<and>
      map_of infos (server_part p) = None \<longrightarrow>
      snd (getToolsOverview stringify infos (pre @ p # post)) =
        Inl (server_not_found_error (server_part p))) \<and>
   ((\<exists>e. snd (getToolsOverview stringify infos toolPaths) = Inl e) \<longleftrightarrow>
      (\<exists>q \<in> set toolPaths. fails_lookup infos q)) \<and>
   ((\<forall>q \<in> set toolPaths. \<not> fails_lookup infos q) \<longrightarrow>
      getToolsOverview stringify infos toolPaths =
        (concat (map (path_warnings infos) toolPaths),
         Inr (stringify (concat (map (path_elements infos) toolPaths))))) \<and>
   (map_of infos (server_part p) = Some serverInfo \<and>
      find (\<lambda>t. title t = tool_part p) (tools serverInfo) = None \<longrightarrow>
      path_warnings infos p = [ToolNotFound (tool_part p) (server_part p)] \<and>
      path_elements infos p = [])"
proof (intro conjI impI)
  assume a: "(\<forall>q \<in> set pre. \<not> fails_lookup infos q) \<and> malformed p"
  then have "fails_lookup infos p" by (simp add: fails_lookup_def)
  from getToolsOverview_first_failure[OF conjunct1[OF a] this, of stringify post] a
  show "snd (getToolsOverview stringify infos (pre @ p # post)) = Inl (invalid_path_error p)"
    by simp
next
  assume a: "(\<forall>q \<in> set pre. \<not> fails_lookup infos q) \<and> \<not> malformed p \<and>
      map_of infos (server_part p) = None"
  then have "fails_lookup infos p" by (simp add: fails_lookup_def)
  from getToolsOverview_first_failure[OF conjunct1[OF a] this, of stringify post] a
  show "snd (getToolsOverview stringify infos (pre @ p # post)) =
        Inl (server_not_found_error (server_part p))"
    by simp
next
  show "(\<exists>e. snd (getToolsOverview stringify infos toolPaths) = Inl e) \<longleftrightarrow>
      (\<exists>q \<in> set toolPaths. fails_lookup infos q)"
    by (rule getToolsOverview_fails_iff)
next
  assume "\<forall>q \<in> set toolPaths. \<not> fails_lookup infos q"
  then show "getToolsOverview stringify infos toolPaths =
        (concat (map (path_warnings infos) toolPaths),
         Inr (stringify (concat (map (path_elements infos) toolPaths))))"
    by (rule getToolsOverview_all_ok)
next
  assume a: "map_of infos (server_part p) = Some serverInfo \<and>
      find (\<lambda>t. title t = tool_part p) (tools serverInfo) = None"
  then show "path_warnings infos p = [ToolNotFound (tool_part p) (server_part p)]"
    by (simp add: path_warnings_def)
  from a show "path_elements infos p = []"
    by (simp add: path_elements_def)
qed

theorem tool_paths_fail_at_first_failure_witness:
  "snd (getToolsOverview example_stringify_tools [(''weather'', weather_info)]
          [''weather/get_forecast'', ''weather'', ''files/read'']) =
     Inl (invalid_path_error ''weather'') \<and>
   snd (getToolsOverview example_stringify_tools [(''weather'', weather_info)]
          [''weather/get_forecast'', ''files/read'', ''weather'']) =
     Inl (server_not_found_error ''files'') \<and>
   getToolsOverview example_stringify_tools [(''weather'', weather_info)]
     [''weather/forecast'', ''weather/get_forecast''] =
     ([ToolNotFound ''forecast'' ''weather''],
      Inr (example_stringify_tools [with_exampleUsage ''weather'' forecast_tool]))"
proof -
  let ?infos = "[(''weather'', weather_info)] :: nat ServerInfo js_map"
  have ok: "\<not> fails_lookup ?infos ''weather/get_forecast''"
    "\<not> fails_lookup ?infos ''weather/forecast''"
    by (simp_all add: fails_lookup_def malformed_def server_part_def)
  have bad: "malformed ''weather''" "\<not> malformed ''files/read''"
    "map_of ?infos (server_part ''files/read'') = None" "server_part ''files/read'' = ''files''"
    by (simp_all add: malformed_def server_part_def)
  have found: "path_warnings ?infos ''weather/get_forecast'' = []"
    "path_elements ?infos ''weather/get_forecast'' = [with_exampleUsage ''weather'' forecast_tool]"
    by (simp_all add: path_warnings_def path_elements_def server_part_def tool_part_def
        weather_info_def forecast_tool_def)
  have missing: "map_of ?infos (server_part ''weather/forecast'') = Some weather_info"
    "find (\<lambda>t. title t = tool_part ''weather/forecast'') (tools weather_info) = None"
    "tool_part ''weather/forecast'' = ''forecast''" "server_part ''weather/forecast'' = ''weather''"
    by (simp_all add: server_part_def tool_part_def weather_info_def forecast_tool_def)
  show ?thesis
    using tool_paths_fail_at_first_failure
            [of "[''weather/get_forecast'']" ?infos "''weather''" example_stringify_tools
                "[''files/read'']" "[''weather/forecast'', ''weather/get_forecast'']" weather_info]
          tool_paths_fail_at_first_failure
            [of "[''weather/get_forecast'']" ?infos "''files/read''" example_stringify_tools
                "[''weather'']" "[''weather/forecast'', ''weather/get_forecast'']" weather_info]
          tool_paths_fail_at_first_failure
            [of "[''weather/get_forecast'']" ?infos "''weather/forecast''" example_stringify_tools
                "[''weather'']" "[''weather/forecast'', ''weather/get_forecast'']" weather_info]
          ok bad found missing
    by simp
qed

text \<open>
  C6: for a registry that has a server named \<open>weather\<close> with a tool whose title is
  \<open>get_forecast\<close>, \<^verbatim>\<open>getToolsOverview\<close> with \<open>[weather/get_forecast]\<close> returns (without a
  warning) the JSON text of an array of one element, a tool of that title with the
  \<^verbatim>\<open>exampleUsage\<close> of the claim.
\<close>

theorem forecast_example_usage:
  "map_of infos ''weather'' = Some serverInfo \<and> t \<in> set (tools serverInfo) \<and>
   title t = ''get_forecast'' \<longrightarrow>
     (\<exists>element.
        getToolsOverview stringify infos [''weather/get_forecast''] =
          ([], Inr (stringify [element])) \<and>
        length [element] = 1 \<and>
        title element = ''get_forecast'' \<and>
        exampleUsage element =
          ''const get_forecast = require('./weather/get_forecast.cjs');\<newline>module.exports = get_forecast({ /* your parameters here */ });'')"
proof
  assume a: "map_of infos ''weather'' = Some serverInfo \<and> t \<in> set (tools serverInfo) \<and>
   title t = ''get_forecast''"
  then have "find (\<lambda>x. title x = ''get_forecast'') (tools serverInfo) \<noteq> None"
    by (auto simp: find_None_iff)
  then obtain tool where tool: "find (\<lambda>x. title x = ''get_forecast'') (tools serverInfo) = Some tool"
    by blast
  then have title: "title tool = ''get_forecast''" by (auto simp: find_Some_iff)
  have run: "getToolsOverview stringify infos [''weather/get_forecast''] =
          ([], Inr (stringify [with_exampleUsage ''weather'' tool]))"
    using a tool by (simp add: getToolsOverview_def)
  have usage: "exampleUsage (with_exampleUsage ''weather'' tool) =
          ''const get_forecast = require('./weather/get_forecast.cjs');\<newline>module.exports = get_forecast({ /* your parameters here */ });''"
    by (simp add: with_exampleUsage_def exampleUsage_text_def title quoted_def Tool.extend_def
        ToolWithUsage.fields_def)
  have "title (with_exampleUsage ''weather'' tool) = ''get_forecast''"
    by (simp add: with_exampleUsage_def title Tool.extend_def ToolWithUsage.fields_def)
  then show "\<exists>element.
        getToolsOverview stringify infos [''weather/get_forecast''] =
          ([], Inr (stringify [element])) \<and>
        length [element] = 1 \<and>
        title element = ''get_forecast'' \<and>
        exampleUsage element =
          ''const get_forecast = require('./weather/get_forecast.cjs');\<newline>module.exports = get_forecast({ /* your parameters here */ });''"
    using run usage by auto
qed

theorem forecast_example_usage_witness:
  "map_of two_servers ''weather'' = Some weather_info \<and>
   forecast_tool \<in> set (tools weather_info) \<and> title forecast_tool = ''get_forecast'' \<and>
   (\<exists>element.
      getToolsOverview example_stringify_tools two_servers [''weather/get_forecast''] =
        ([], Inr (example_stringify_tools [element])) \<and>
      exampleUsage element =
        ''const get_forecast = require('./weather/get_forecast.cjs');\<newline>module.exports = get_forecast({ /* your parameters here */ });'')"
  using forecast_example_usage
          [of two_servers weather_info forecast_tool example_stringify_tools]
  by (auto simp: two_servers_def weather_info_def forecast_tool_def)

end
